theory Spec2Isabelle
  imports Complex_Main
begin

section \<open>ssbench worker: values, exceptions and outcomes\<close>

text \<open>
  The worker of \<^verbatim>\<open>ssbench/worker.py\<close> handles jobs that are msgpack-decoded dicts.
  A dict is a map from keys to Python values; the values a msgpack message can carry at
  the top level of a job are modelled by \<open>pyval\<close>.  Python floats are represented by the
  real they denote (only \<open>0.0\<close> and clock readings are ever built by the worker itself).
\<close>

datatype pyval = VNone | VBool bool | VInt int | VFloat real | VStr string

type_synonym job = "string \<rightharpoonup> pyval"

text \<open>Truth value of a Python object, as \<^verbatim>\<open>if x:\<close> tests it.\<close>

fun truthy :: "pyval \<Rightarrow> bool" where
  "truthy VNone = False"
| "truthy (VBool b) = b"
| "truthy (VInt i) = (i \<noteq> 0)"
| "truthy (VFloat r) = (r \<noteq> 0)"
| "truthy (VStr s) = (s \<noteq> [])"

text \<open>
  The storage client's three operations, which the handlers pass to the retry executor
  as \<^verbatim>\<open>fn\<close>.
\<close>

datatype client_op = PutObject | DeleteObject | GetObject

text \<open>
  Exceptions, as values.  \<open>UnknownJobType v\<close> is
  \<^verbatim>\<open>NameError("Unknown job type %r" % v)\<close>, and \<open>NoFnResults fn n\<close> is
  \<^verbatim>\<open>Exception('No fn_results for %r after %d retries' % (fn, n))\<close>.
  \<open>ClientException status\<close> is the storage client's error with its \<^verbatim>\<open>http_status\<close>.
  The last two constructors are gevent's \<^verbatim>\<open>GreenletExit\<close>, raised in a greenlet that is
  killed, and \<^verbatim>\<open>Timeout\<close>; their classes derive from \<^verbatim>\<open>BaseException\<close> but not from
  \<^verbatim>\<open>Exception\<close>, so a clause \<^verbatim>\<open>except Exception\<close> does not catch them.
  (\<^verbatim>\<open>KeyboardInterrupt\<close> and \<^verbatim>\<open>SystemExit\<close>, which concern the whole process and not one
  greenlet, are not modelled.)
\<close>

datatype exc =
    UnknownJobType pyval
  | KeyError pyval
  | NoFnResults client_op int
  | SocketError string
  | ClientException int
  | CannotSendRequest
  | HTTPConnectionClosed
  | ValueError string
  | TypeError string
  | AttributeError string
  | RuntimeError string
  | OverflowError string
  | OtherError string
  | GreenletExit
  | Timeout

text \<open>What \<^verbatim>\<open>except Exception\<close> catches.\<close>

definition is_Exception :: "exc \<Rightarrow> bool" where
  "is_Exception x =
     (case x of
        GreenletExit \<Rightarrow> False
      | Timeout \<Rightarrow> False
      | _ \<Rightarrow> True)"

text \<open>
  What a call does: it returns a value, raises, or never returns because it waits on a
  queue that stays empty (\<^verbatim>\<open>gevent.queue.Queue.get\<close>) or full (\<^verbatim>\<open>put\<close>).
\<close>

datatype 'a outcome = Returns 'a | Raises exc | Blocked

section \<open>ChunkedReader\<close>

text \<open>
  \<^verbatim>\<open>
  class ChunkedReader(object):
      def __init__(self, letter, size):
          self.size = size
          self.letter = letter
          chunk_size = 2 ** 21
          self.chunk = letter * chunk_size

      def read(self, chunk_size):
          return self.chunk[:chunk_size]
  \<close>
  \<^verbatim>\<open>letter\<close> is a Python \<^verbatim>\<open>str\<close>; \<^verbatim>\<open>letter * n\<close> is its \<open>n\<close>-fold repetition.
\<close>

record chunked_reader =
  size_attr :: int
  letter :: string
  chunk :: string

definition chunk_size :: nat where
  "chunk_size = 2 ^ 21"

definition ChunkedReader :: "string \<Rightarrow> int \<Rightarrow> chunked_reader" where
  "ChunkedReader l sz = \<lparr>size_attr = sz, letter = l, chunk = concat (replicate chunk_size l)\<rparr>"

text \<open>
  The slice \<^verbatim>\<open>s[:n]\<close>: the first \<open>n\<close> characters, and for a negative \<open>n\<close> all but the last
  \<open>-n\<close>.
\<close>

definition py_slice_to :: "string \<Rightarrow> int \<Rightarrow> string" where
  "py_slice_to s n = (if 0 \<le> n then take (nat n) s else take (length s - nat (- n)) s)"

text \<open>
  \<^verbatim>\<open>read\<close> assigns to no attribute; the model returns the data together with the reader
  as it is after the call.
\<close>

definition read :: "chunked_reader \<Rightarrow> int \<Rightarrow> string \<times> chunked_reader" where
  "read r n = (py_slice_to (chunk r) n, r)"

text \<open>A sequence of \<^verbatim>\<open>read\<close> calls on one reader: the data of each, and the reader at the end.\<close>

fun reads :: "chunked_reader \<Rightarrow> int list \<Rightarrow> string list \<times> chunked_reader" where
  "reads r [] = ([], r)"
| "reads r (n # ns) =
     (case read r n of (d, r') \<Rightarrow> (case reads r' ns of (ds, r'') \<Rightarrow> (d # ds, r'')))"


section \<open>Connections, pools and the worker\<close>

text \<open>
  A connection object is identified by the order of its creation and remembers the url it
  was made for.  \<^verbatim>\<open>client.http_connection\<close> is an external collaborator; the model takes
  from it only that each call makes a new connection object.
\<close>

datatype http_conn = HttpConn (conn_id: nat) (conn_url: pyval)

text \<open>
  \<^verbatim>\<open>
  class ConnectionPool(gevent.queue.Queue):
      def __init__(self, factory, maxsize=1):
          self.create = factory
          gevent.queue.Queue.__init__(self, maxsize)
          for _ in xrange(maxsize):
              self.put(self.create())
  \<close>
  The factory is \<^verbatim>\<open>partial(client.http_connection, storage_url)\<close>: the pool keeps the
  url it creates connections for.  \<open>queue\<close> holds the connections at rest, oldest first.
\<close>

record connection_pool =
  pool_url :: pyval
  maxsize :: nat
  queue :: "http_conn list"

text \<open>
  What a storage-client operation returns: nothing usable (\<^verbatim>\<open>None\<close>), a dict of response
  headers (put, delete), or a pair of headers and body (get).  A dict is false when empty, a
  pair never.
\<close>

type_synonym headers = "(string \<times> pyval) list"

datatype fn_result = RNone | RHeaders headers | RPair headers string

fun fn_truthy :: "fn_result \<Rightarrow> bool" where
  "fn_truthy RNone = False"
| "fn_truthy (RHeaders h) = (h \<noteq> [])"
| "fn_truthy (RPair h b) = True"

text \<open>A call of a storage-client operation: \<^verbatim>\<open>fn(http_conn=conn, **args)\<close>.\<close>

datatype argval = APy pyval | AReader chunked_reader

record call =
  call_op :: client_op
  call_conn :: http_conn
  call_kwargs :: "string \<rightharpoonup> argval"

datatype client_outcome = CReturn fn_result | CRaise exc

text \<open>
  The state of a \<^verbatim>\<open>Worker\<close>: the attributes the job engine reads and writes, and the
  histories that the statements below speak of.  \<open>result_queue\<close> holds every record ever
  put on the queue, in order (the writer greenlet only forwards them); \<open>created\<close> counts
  the connections created so far; \<open>closed_conns\<close> lists the connections on which
  \<^verbatim>\<open>close()\<close> was called, whether or not the call raised; \<open>calls\<close> lists the
  storage-client calls made.  \<^verbatim>\<open>concurrency\<close> is a natural number: \<^verbatim>\<open>gevent.pool.Pool\<close>
  takes no negative size.
\<close>

record worker =
  worker_id :: pyval
  max_retries :: int
  concurrency :: nat
  conn_pools :: "pyval \<rightharpoonup> connection_pool"
  result_queue :: "job list"
  created :: nat
  closed_conns :: "http_conn list"
  calls :: "call list"

text \<open>
  The collaborators outside the file: the storage client (its answer to a call may depend
  on all the calls made before), \<^verbatim>\<open>repr\<close> of an exception, \<^verbatim>\<open>traceback.format_exc\<close>,
  the clock (read once for each record put), \<^verbatim>\<open>int\<close> on a string, the interpreter's
  recursion limit, and \<^verbatim>\<open>msgpack.dumps\<close>: for a dict it cannot encode, the exception it
  raises (\<^verbatim>\<open>OverflowError\<close> for an integer that does not fit 64 bits), and \<open>None\<close> for a
  dict it encodes.
\<close>

record env =
  client :: "call list \<Rightarrow> call \<Rightarrow> client_outcome"
  py_repr :: "exc \<Rightarrow> string"
  format_exc :: "exc \<Rightarrow> string"
  time_time :: "nat \<Rightarrow> real"
  int_of_str :: "string \<Rightarrow> int option"
  recursion_limit :: nat
  msgpack_dumps :: "job \<Rightarrow> exc option"

subsection \<open>Borrowing and returning connections\<close>

text \<open>
  \<^verbatim>\<open>self.conn_pools[storage_url].get()\<close>, \<^verbatim>\<open>.put(hc)\<close> and \<^verbatim>\<open>.create()\<close>.  A missing
  pool is a \<^verbatim>\<open>KeyError\<close>; \<^verbatim>\<open>get\<close> on an empty queue and \<^verbatim>\<open>put\<close> on a full one wait.
\<close>

definition pool_get :: "pyval \<Rightarrow> worker \<Rightarrow> http_conn outcome \<times> worker" where
  "pool_get url w =
     (case conn_pools w url of
        None \<Rightarrow> (Raises (KeyError url), w)
      | Some p \<Rightarrow>
          (case queue p of
             [] \<Rightarrow> (Blocked, w)
           | hc # rest \<Rightarrow>
               (Returns hc, w\<lparr>conn_pools := (conn_pools w)(url \<mapsto> p\<lparr>queue := rest\<rparr>)\<rparr>)))"

definition pool_put :: "pyval \<Rightarrow> http_conn \<Rightarrow> worker \<Rightarrow> unit outcome \<times> worker" where
  "pool_put url hc w =
     (case conn_pools w url of
        None \<Rightarrow> (Raises (KeyError url), w)
      | Some p \<Rightarrow>
          if length (queue p) < maxsize p
          then (Returns (), w\<lparr>conn_pools := (conn_pools w)(url \<mapsto> p\<lparr>queue := queue p @ [hc]\<rparr>)\<rparr>)
          else (Blocked, w))"

definition pool_create :: "pyval \<Rightarrow> worker \<Rightarrow> http_conn outcome \<times> worker" where
  "pool_create url w =
     (case conn_pools w url of
        None \<Rightarrow> (Raises (KeyError url), w)
      | Some p \<Rightarrow> (Returns (HttpConn (created w) (pool_url p)), w\<lparr>created := Suc (created w)\<rparr>))"

text \<open>
  The \<^verbatim>\<open>finally\<close> clause of \<^verbatim>\<open>connection\<close>: return \<open>hc\<close> to the pool, then go on with
  the outcome \<open>r\<close> reached before, unless the \<^verbatim>\<open>put\<close> itself raises or waits.
\<close>

definition finally_put :: "pyval \<Rightarrow> http_conn \<Rightarrow> 'a outcome \<Rightarrow> worker \<Rightarrow> 'a outcome \<times> worker" where
  "finally_put url hc r w =
     (case pool_put url hc w of
        (Returns u, w') \<Rightarrow> (r, w')
      | (Raises e, w') \<Rightarrow> (Raises e, w')
      | (Blocked, w') \<Rightarrow> (Blocked, w'))"

text \<open>
  \<^verbatim>\<open>
  @contextmanager
  def connection(self, storage_url):
      try:
          hc = self.conn_pools[storage_url].get()
          try:
              yield hc
          except (CannotSendRequest, HTTPConnectionClosed) as e:
              logging.debug("@connection hit %r...", e)
              try:
                  hc.close()
              except Exception:
                  pass
              hc = self.conn_pools[storage_url].create()
      finally:
          self.conn_pools[storage_url].put(hc)
  \<close>
  The \<^verbatim>\<open>with\<close> statement is a function of its body.  When the generator catches the
  exception thrown into it and ends, the \<^verbatim>\<open>with\<close> statement swallows the exception: the
  body is abandoned and the statement completes, here as \<open>Returns None\<close>;
  \<open>Returns (Some v)\<close> is a body that ran to its end with value \<open>v\<close>.  When the url has
  no pool, the lookup in \<^verbatim>\<open>get\<close> raises \<^verbatim>\<open>KeyError\<close> and so does the lookup in the
  \<^verbatim>\<open>finally\<close> clause.
\<close>

definition connection ::
  "pyval \<Rightarrow> (http_conn \<Rightarrow> worker \<Rightarrow> 'a outcome \<times> worker) \<Rightarrow> worker \<Rightarrow> 'a option outcome \<times> worker" where
  "connection storage_url body w =
     (case pool_get storage_url w of
        (Raises e, w1) \<Rightarrow> (Raises e, w1)
      | (Blocked, w1) \<Rightarrow> (Blocked, w1)
      | (Returns hc, w1) \<Rightarrow>
          (case body hc w1 of
             (Blocked, w2) \<Rightarrow> (Blocked, w2)
           | (Returns v, w2) \<Rightarrow> finally_put storage_url hc (Returns (Some v)) w2
           | (Raises e, w2) \<Rightarrow>
               if e = CannotSendRequest \<or> e = HTTPConnectionClosed then
                 (let w3 = w2\<lparr>closed_conns := closed_conns w2 @ [hc]\<rparr> in
                  case pool_create storage_url w3 of
                    (Returns hc', w4) \<Rightarrow> finally_put storage_url hc' (Returns None) w4
                  | (Raises e', w4) \<Rightarrow> finally_put storage_url hc (Raises e') w4
                  | (Blocked, w4) \<Rightarrow> (Blocked, w4))
               else finally_put storage_url hc (Raises e) w2))"

section \<open>The retry executor\<close>

text \<open>One call \<^verbatim>\<open>fn(http_conn=conn, **args)\<close>, entered in the history of calls.\<close>

definition call_fn ::
  "env \<Rightarrow> client_op \<Rightarrow> (string \<rightharpoonup> argval) \<Rightarrow> http_conn \<Rightarrow> worker \<Rightarrow> fn_result outcome \<times> worker" where
  "call_fn e fn args conn w =
     (let c = \<lparr>call_op = fn, call_conn = conn, call_kwargs = args\<rparr>;
          w' = w\<lparr>calls := calls w @ [c]\<rparr>
      in case client e (calls w) c of
           CReturn r \<Rightarrow> (Returns r, w')
         | CRaise x \<Rightarrow> (Raises x, w'))"

text \<open>
  One pass through the body of \<^verbatim>\<open>while True\<close> in \<^verbatim>\<open>ignoring_http_responses\<close>, with
  \<^verbatim>\<open>tries\<close> on entry:
  \<^verbatim>\<open>
  try:
      fn_results = None
      with self.connection(call_info['storage_url']) as conn:
          fn_results = fn(http_conn=conn, **args)
      if fn_results:
          break
      tries += 1
      if tries > self.max_retries:
          raise Exception('No fn_results for %r after %d '
                          'retries' % (fn, self.max_retries))
  except socket.error:
      tries += 1
      if tries > self.max_retries:
          raise
  except client.ClientException as error:
      tries += 1
      if error.http_status in statuses and \
              tries <= self.max_retries:
          logging.debug("Retrying an error: %r", error)
      else:
          raise
  \<close>
  It ends the loop with a result (\<open>Break\<close>), goes round again with the new value of
  \<^verbatim>\<open>tries\<close> (\<open>Continue\<close>), raises, or waits for ever.  When the \<^verbatim>\<open>with\<close> statement
  has swallowed an exception of its body, the assignment has not happened and
  \<^verbatim>\<open>fn_results\<close> is still \<^verbatim>\<open>None\<close>.  The exception raised in the \<^verbatim>\<open>try\<close> block itself is
  neither a \<^verbatim>\<open>socket.error\<close> nor a \<^verbatim>\<open>ClientException\<close> and leaves the loop.
\<close>

datatype step = Break fn_result | Continue int | Raise exc | Block

definition attempt ::
  "env \<Rightarrow> int list \<Rightarrow> client_op \<Rightarrow> pyval \<Rightarrow> (string \<rightharpoonup> argval) \<Rightarrow> int \<Rightarrow> worker \<Rightarrow> step \<times> worker" where
  "attempt e statuses fn storage_url args tries w =
     (case connection storage_url (call_fn e fn args) w of
        (Blocked, w') \<Rightarrow> (Block, w')
      | (Returns v, w') \<Rightarrow>
          (let fn_results = (case v of None \<Rightarrow> RNone | Some r \<Rightarrow> r) in
           if fn_truthy fn_results then (Break fn_results, w')
           else if tries + 1 > max_retries w' then (Raise (NoFnResults fn (max_retries w')), w')
           else (Continue (tries + 1), w'))
      | (Raises x, w') \<Rightarrow>
          (case x of
             SocketError m \<Rightarrow>
               if tries + 1 > max_retries w' then (Raise x, w') else (Continue (tries + 1), w')
           | ClientException http_status \<Rightarrow>
               if http_status \<in> set statuses \<and> tries + 1 \<le> max_retries w'
               then (Continue (tries + 1), w')
               else (Raise x, w')
           | _ \<Rightarrow> (Raise x, w')))"

text \<open>The loop \<^verbatim>\<open>while True\<close>, and \<^verbatim>\<open>return fn_results\<close> after it.\<close>

function retry_loop ::
  "env \<Rightarrow> int list \<Rightarrow> client_op \<Rightarrow> pyval \<Rightarrow> (string \<rightharpoonup> argval) \<Rightarrow> int \<Rightarrow> worker
     \<Rightarrow> fn_result outcome \<times> worker" where
  "retry_loop e statuses fn storage_url args tries w =
     (case attempt e statuses fn storage_url args tries w of
        (Break r, w') \<Rightarrow> (Returns r, w')
      | (Raise x, w') \<Rightarrow> (Raises x, w')
      | (Block, w') \<Rightarrow> (Blocked, w')
      | (Continue t, w') \<Rightarrow> retry_loop e statuses fn storage_url args t w')"
  by pat_completeness auto
termination
proof (relation "measure (\<lambda>(e, statuses, fn, storage_url, args, tries, w). nat (max_retries w - tries))")
  show "wf (measure (\<lambda>(e, statuses, fn, storage_url, args, tries, w). nat (max_retries w - tries)))"
    by simp
next
  fix e :: env and statuses fn storage_url args tries and w :: worker and x t w'
  assume a: "(x, w') = attempt e statuses fn storage_url args tries w" "x = Continue t"
  have put: "\<And>hc (r :: fn_result option outcome) v r'. finally_put storage_url hc r v = (r', w')
      \<Longrightarrow> max_retries w' = max_retries v"
    by (auto simp: finally_put_def pool_put_def split: option.splits if_splits prod.splits outcome.splits)
  have "max_retries w' = max_retries w \<and> t = tries + 1 \<and> t \<le> max_retries w'"
    using a
    by (auto simp: attempt_def connection_def call_fn_def pool_get_def pool_create_def Let_def
        split: option.splits list.splits prod.splits outcome.splits if_splits exc.splits
          client_outcome.splits dest!: put)
  then show "((e, statuses, fn, storage_url, args, t, w'), (e, statuses, fn, storage_url, args, tries, w))
      \<in> measure (\<lambda>(e, statuses, fn, storage_url, args, tries, w). nat (max_retries w - tries))"
    by simp
qed

declare retry_loop.simps [simp del]

text \<open>
  \<^verbatim>\<open>
  def ignoring_http_responses(self, statuses, fn, call_info, **extra_keys):
      tries = 0
      args = dict(
          url=call_info['storage_url'],
          token=call_info['token'],
          container=call_info['container'],
          name=call_info['name'],
      )
      args.update(extra_keys)
      while True: ...
      return fn_results
  \<close>
\<close>

definition ignoring_http_responses ::
  "env \<Rightarrow> int list \<Rightarrow> client_op \<Rightarrow> job \<Rightarrow> (string \<rightharpoonup> argval) \<Rightarrow> worker \<Rightarrow> fn_result outcome \<times> worker" where
  "ignoring_http_responses e statuses fn call_info extra_keys w =
     (case call_info ''storage_url'' of
        None \<Rightarrow> (Raises (KeyError (VStr ''storage_url'')), w)
      | Some url \<Rightarrow>
     (case call_info ''token'' of
        None \<Rightarrow> (Raises (KeyError (VStr ''token'')), w)
      | Some token \<Rightarrow>
     (case call_info ''container'' of
        None \<Rightarrow> (Raises (KeyError (VStr ''container'')), w)
      | Some container \<Rightarrow>
     (case call_info ''name'' of
        None \<Rightarrow> (Raises (KeyError (VStr ''name'')), w)
      | Some name \<Rightarrow>
          retry_loop e statuses fn url
            ([''url'' \<mapsto> APy url, ''token'' \<mapsto> APy token, ''container'' \<mapsto> APy container,
              ''name'' \<mapsto> APy name] ++ extra_keys)
            0 w))))"

section \<open>Results\<close>

text \<open>
  \<^verbatim>\<open>
  def add_dicts(*args, **kwargs):
      result = {}
      for d in args:
          result.update(d)
      result.update(kwargs)
      return result
  \<close>
\<close>

definition add_dicts :: "job list \<Rightarrow> job \<Rightarrow> job" where
  "add_dicts args kwargs = foldl (++) Map.empty args ++ kwargs"

text \<open>
  \<^verbatim>\<open>
  def put_results(self, *args, **kwargs):
      self.result_queue.put(
          msgpack.dumps(add_dicts(*args, completed_at=time.time(),
                                  worker_id=self.worker_id, **kwargs)))
  \<close>
  The dict is built first; when \<^verbatim>\<open>msgpack.dumps\<close> raises, nothing is put and the
  exception leaves \<^verbatim>\<open>put_results\<close>.  The queue is unbounded, so the \<^verbatim>\<open>put\<close> never
  waits.  A record is kept on the queue as the dict that was encoded.
\<close>

definition put_results :: "env \<Rightarrow> job list \<Rightarrow> job \<Rightarrow> worker \<Rightarrow> unit outcome \<times> worker" where
  "put_results e args kwargs w =
     (let result = add_dicts args
            ([''completed_at'' \<mapsto> VFloat (time_time e (length (result_queue w))),
              ''worker_id'' \<mapsto> worker_id w] ++ kwargs)
      in case msgpack_dumps e result of
           Some x \<Rightarrow> (Raises x, w)
         | None \<Rightarrow> (Returns (), w\<lparr>result_queue := result_queue w @ [result]\<rparr>))"

text \<open>\<^verbatim>\<open>resp_headers.get(key, None)\<close> on a dict of headers.\<close>

definition header_get :: "headers \<Rightarrow> string \<Rightarrow> pyval" where
  "header_get resp_headers k = (case map_of resp_headers k of None \<Rightarrow> VNone | Some v \<Rightarrow> v)"

text \<open>
  \<^verbatim>\<open>
  def _put_results_from_response(self, object_info, resp_headers):
      self.put_results(
          object_info,
          first_byte_latency=resp_headers.get(
              'x-swiftstack-first-byte-latency', None),
          last_byte_latency=resp_headers.get(
              'x-swiftstack-last-byte-latency', None),
          trans_id=resp_headers.get('x-trans-id', None))
  \<close>
\<close>

definition put_results_from_response ::
  "env \<Rightarrow> job \<Rightarrow> headers \<Rightarrow> worker \<Rightarrow> unit outcome \<times> worker" where
  "put_results_from_response e object_info resp_headers w =
     put_results e [object_info]
       [''first_byte_latency'' \<mapsto> header_get resp_headers ''x-swiftstack-first-byte-latency'',
        ''last_byte_latency'' \<mapsto> header_get resp_headers ''x-swiftstack-last-byte-latency'',
        ''trans_id'' \<mapsto> header_get resp_headers ''x-trans-id'']
       w"

section \<open>Job handlers\<close>

text \<open>
  A handler returns nothing, raises or waits; it may also assign to a key of the job dict
  it was given, which its caller sees.  The model returns the dict after the call.
\<close>

type_synonym handled = "unit outcome \<times> job \<times> worker"

text \<open>
  \<^verbatim>\<open>
  def handle_noop(self, object_info):
      self.put_results(
          object_info,
          first_byte_latency=0.0,
          last_byte_latency=0.0,
          trans_id=None)
  \<close>
\<close>

definition handle_noop :: "env \<Rightarrow> job \<Rightarrow> worker \<Rightarrow> handled" where
  "handle_noop e object_info w =
     (case put_results e [object_info]
             [''first_byte_latency'' \<mapsto> VFloat 0, ''last_byte_latency'' \<mapsto> VFloat 0,
              ''trans_id'' \<mapsto> VNone] w of
        (r, w') \<Rightarrow> (r, object_info, w'))"

text \<open>\<^verbatim>\<open>int(x)\<close>: a float is truncated towards zero, \<^verbatim>\<open>None\<close> is a \<^verbatim>\<open>TypeError\<close>.\<close>

definition py_int :: "env \<Rightarrow> pyval \<Rightarrow> exc + int" where
  "py_int e v =
     (case v of
        VNone \<Rightarrow> Inl (TypeError ''int() argument must be a string or a number'')
      | VBool b \<Rightarrow> Inr (if b then 1 else 0)
      | VInt i \<Rightarrow> Inr i
      | VFloat r \<Rightarrow> Inr (if 0 \<le> r then \<lfloor>r\<rfloor> else \<lceil>r\<rceil>)
      | VStr s \<Rightarrow>
          (case int_of_str e s of
             None \<Rightarrow> Inl (ValueError ''invalid literal for int()'')
           | Some i \<Rightarrow> Inr i))"

text \<open>
  \<^verbatim>\<open>
  def handle_upload_object(self, object_info, letter='A'):
      object_info['size'] = int(object_info['size'])
      headers = self.ignoring_http_responses(
          (503,), client.put_object, object_info,
          content_length=object_info['size'],
          contents=ChunkedReader(letter, object_info['size']))
      self._put_results_from_response(object_info, headers)
  \<close>
  The optional argument is \<open>None\<close> when the caller leaves \<^verbatim>\<open>letter\<close> out.  A result
  that is not a dict has no \<^verbatim>\<open>get\<close>.
\<close>

definition handle_upload_object :: "env \<Rightarrow> job \<Rightarrow> string option \<Rightarrow> worker \<Rightarrow> handled" where
  "handle_upload_object e object_info letter_arg w =
     (let letter = (case letter_arg of None \<Rightarrow> ''A'' | Some l \<Rightarrow> l) in
      case object_info ''size'' of
        None \<Rightarrow> (Raises (KeyError (VStr ''size'')), object_info, w)
      | Some v \<Rightarrow>
          (case py_int e v of
             Inl x \<Rightarrow> (Raises x, object_info, w)
           | Inr n \<Rightarrow>
               (let object_info' = object_info(''size'' \<mapsto> VInt n) in
                case ignoring_http_responses e [503] PutObject object_info'
                       [''content_length'' \<mapsto> APy (VInt n),
                        ''contents'' \<mapsto> AReader (ChunkedReader letter n)] w of
                  (Returns (RHeaders h), w') \<Rightarrow>
                    (case put_results_from_response e object_info' h w' of
                       (r, w'') \<Rightarrow> (r, object_info', w''))
                | (Returns r, w') \<Rightarrow>
                    (Raises (AttributeError ''get''), object_info', w')
                | (Raises x, w') \<Rightarrow> (Raises x, object_info', w')
                | (Blocked, w') \<Rightarrow> (Blocked, object_info', w'))))"

text \<open>
  \<^verbatim>\<open>
  def handle_update_object(self, object_info):
      return self.handle_upload_object(object_info, letter='B')
  \<close>
\<close>

definition handle_update_object :: "env \<Rightarrow> job \<Rightarrow> worker \<Rightarrow> handled" where
  "handle_update_object e object_info w = handle_upload_object e object_info (Some ''B'') w"

text \<open>
  \<^verbatim>\<open>
  def handle_delete_object(self, object_info):
      headers = self.ignoring_http_responses(
          (404, 503), client.delete_object, object_info)
      self._put_results_from_response(object_info, headers)
  \<close>
\<close>

definition handle_delete_object :: "env \<Rightarrow> job \<Rightarrow> worker \<Rightarrow> handled" where
  "handle_delete_object e object_info w =
     (case ignoring_http_responses e [404, 503] DeleteObject object_info Map.empty w of
        (Returns (RHeaders h), w') \<Rightarrow>
          (case put_results_from_response e object_info h w' of
             (r, w'') \<Rightarrow> (r, object_info, w''))
      | (Returns r, w') \<Rightarrow> (Raises (AttributeError ''get''), object_info, w')
      | (Raises x, w') \<Rightarrow> (Raises x, object_info, w')
      | (Blocked, w') \<Rightarrow> (Blocked, object_info, w'))"

text \<open>
  \<^verbatim>\<open>
  def handle_get_object(self, object_info):
      headers, body_iter = self.ignoring_http_responses(
          (404, 503), client.get_object, object_info,
          resp_chunk_size=2 ** 16, toss_body=True)
      self._put_results_from_response(object_info, headers)
  \<close>
  Unpacking a dict yields its keys: with two keys \<^verbatim>\<open>headers\<close> is a string, which has no
  \<^verbatim>\<open>get\<close>; with another number of keys the unpacking is a \<^verbatim>\<open>ValueError\<close>.
\<close>

definition handle_get_object :: "env \<Rightarrow> job \<Rightarrow> worker \<Rightarrow> handled" where
  "handle_get_object e object_info w =
     (case ignoring_http_responses e [404, 503] GetObject object_info
             [''resp_chunk_size'' \<mapsto> APy (VInt (2 ^ 16)), ''toss_body'' \<mapsto> APy (VBool True)] w of
        (Returns (RPair h body_iter), w') \<Rightarrow>
          (case put_results_from_response e object_info h w' of
             (r, w'') \<Rightarrow> (r, object_info, w''))
      | (Returns (RHeaders h), w') \<Rightarrow>
          (if length (remdups (map fst h)) = 2
           then (Raises (AttributeError ''get''), object_info, w')
           else (Raises (ValueError ''unpack''), object_info, w'))
      | (Returns RNone, w') \<Rightarrow> (Raises (TypeError ''unpack''), object_info, w')
      | (Raises x, w') \<Rightarrow> (Raises x, object_info, w')
      | (Blocked, w') \<Rightarrow> (Blocked, object_info, w'))"

section \<open>The dispatcher\<close>

text \<open>
  The methods of \<^verbatim>\<open>Worker\<close> whose names start with \<^verbatim>\<open>handle_\<close>;
  \<^verbatim>\<open>getattr(self, name, None)\<close> finds one of them or \<^verbatim>\<open>None\<close>.  \<^verbatim>\<open>handle_job\<close> itself is
  among them.
\<close>

datatype handler =
  HandleJob | HandleNoop | HandleUploadObject | HandleUpdateObject | HandleDeleteObject
  | HandleGetObject

definition getattr_handler :: "string \<Rightarrow> handler option" where
  "getattr_handler attr =
     map_of [(''handle_job'', HandleJob), (''handle_noop'', HandleNoop),
             (''handle_upload_object'', HandleUploadObject),
             (''handle_update_object'', HandleUpdateObject),
             (''handle_delete_object'', HandleDeleteObject),
             (''handle_get_object'', HandleGetObject)] attr"

text \<open>
  \<^verbatim>\<open>
  if job_data.get('noop', False):
      handler = self.handle_noop
  else:
      handler = getattr(self, 'handle_%s' % job_data['type'], None)
  \<close>
  A type that is not a string is formatted as a number, \<^verbatim>\<open>None\<close>, \<^verbatim>\<open>True\<close> or
  \<^verbatim>\<open>False\<close>, and no method has such a name.
\<close>

definition resolve_handler :: "job \<Rightarrow> exc + handler option" where
  "resolve_handler job_data =
     (if truthy (case job_data ''noop'' of None \<Rightarrow> VBool False | Some v \<Rightarrow> v)
      then Inr (Some HandleNoop)
      else (case job_data ''type'' of
              None \<Rightarrow> Inl (KeyError (VStr ''type''))
            | Some (VStr t) \<Rightarrow> Inr (getattr_handler (''handle_'' @ t))
            | Some v \<Rightarrow> Inr None))"

text \<open>
  The call \<^verbatim>\<open>handler(job_data)\<close>; \<open>self_handle_job\<close> is \<^verbatim>\<open>handle_job\<close> called from
  itself.  A handler found by name is called with the job alone, so that
  \<^verbatim>\<open>handle_upload_object\<close> takes its default letter.
\<close>

definition call_handler :: "env \<Rightarrow> (job \<Rightarrow> worker \<Rightarrow> handled) \<Rightarrow> handler \<Rightarrow> job \<Rightarrow> worker \<Rightarrow> handled" where
  "call_handler e self_handle_job h job_data w =
     (case h of
        HandleJob \<Rightarrow> self_handle_job job_data w
      | HandleNoop \<Rightarrow> handle_noop e job_data w
      | HandleUploadObject \<Rightarrow> handle_upload_object e job_data None w
      | HandleUpdateObject \<Rightarrow> handle_update_object e job_data w
      | HandleDeleteObject \<Rightarrow> handle_delete_object e job_data w
      | HandleGetObject \<Rightarrow> handle_get_object e job_data w)"

text \<open>
  The \<^verbatim>\<open>try\<close> statement of \<^verbatim>\<open>handle_job\<close>, applied to what the call of the handler did:
  \<^verbatim>\<open>
  try:
      handler(job_data)
  except Exception as e:
      self.put_results(job_data,
                       exception=repr(e),
                       traceback=traceback.format_exc())
  \<close>
  An exception that \<^verbatim>\<open>except Exception\<close> does not catch goes on, and so does one that
  \<^verbatim>\<open>put_results\<close> raises in the handler of the exception.
\<close>

definition try_handler :: "env \<Rightarrow> handled \<Rightarrow> handled" where
  "try_handler e r =
     (case r of
        (Raises x, job_data', w') \<Rightarrow>
          if is_Exception x
          then (case put_results e [job_data']
                       [''exception'' \<mapsto> VStr (py_repr e x),
                        ''traceback'' \<mapsto> VStr (format_exc e x)] w' of
                  (r', w'') \<Rightarrow> (r', job_data', w''))
          else (Raises x, job_data', w')
      | (Returns u, job_data', w') \<Rightarrow> (Returns u, job_data', w')
      | (Blocked, job_data', w') \<Rightarrow> (Blocked, job_data', w'))"

text \<open>
  \<^verbatim>\<open>
  def handle_job(self, job_data):
      # Dispatch type to a handler, if possible
      if job_data.get('noop', False):
          handler = self.handle_noop
      else:
          handler = getattr(self, 'handle_%s' % job_data['type'], None)
      if handler:
          try:
              handler(job_data)
          except Exception as e:
              self.put_results(job_data,
                               exception=repr(e),
                               traceback=traceback.format_exc())
      else:
          raise NameError("Unknown job type %r" % job_data['type'])
  \<close>
  The natural number bounds the depth of calls, as the interpreter's recursion limit
  does: a job of type \<^verbatim>\<open>job\<close> makes \<^verbatim>\<open>handle_job\<close> its own handler, and the call that
  would exceed the limit raises \<^verbatim>\<open>RuntimeError\<close> in its caller.
\<close>

fun handle_job :: "env \<Rightarrow> nat \<Rightarrow> job \<Rightarrow> worker \<Rightarrow> handled" where
  "handle_job e 0 job_data w =
     (Raises (RuntimeError ''maximum recursion depth exceeded''), job_data, w)"
| "handle_job e (Suc depth) job_data w =
     (case resolve_handler job_data of
        Inl x \<Rightarrow> (Raises x, job_data, w)
      | Inr None \<Rightarrow>
          (case job_data ''type'' of
             None \<Rightarrow> (Raises (KeyError (VStr ''type'')), job_data, w)
           | Some t \<Rightarrow> (Raises (UnknownJobType t), job_data, w))
      | Inr (Some handler) \<Rightarrow>
          try_handler e (call_handler e (handle_job e depth) handler job_data w))"

section \<open>The intake loop\<close>

text \<open>
  \<^verbatim>\<open>ConnectionPool(factory, maxsize)\<close>: an empty queue of capacity \<^verbatim>\<open>maxsize\<close>, then
  \<^verbatim>\<open>for _ in xrange(maxsize): self.put(self.create())\<close>.  \<open>fill_pool k\<close> is \<open>k\<close> rounds of
  that loop, the second component counting the connections created so far.
\<close>

fun fill_pool :: "nat \<Rightarrow> connection_pool \<Rightarrow> nat \<Rightarrow> connection_pool \<times> nat" where
  "fill_pool 0 p n = (p, n)"
| "fill_pool (Suc k) p n = fill_pool k (p\<lparr>queue := queue p @ [HttpConn n (pool_url p)]\<rparr>) (Suc n)"

definition ConnectionPool :: "pyval \<Rightarrow> nat \<Rightarrow> worker \<Rightarrow> connection_pool \<times> worker" where
  "ConnectionPool url cap w =
     (case fill_pool cap \<lparr>pool_url = url, maxsize = cap, queue = []\<rparr> (created w) of
        (p, n) \<Rightarrow> (p, w\<lparr>created := n\<rparr>))"

text \<open>
  \<^verbatim>\<open>
  if job_data['storage_url'] not in self.conn_pools:
      self.conn_pools[job_data['storage_url']] = ConnectionPool(
          partial(client.http_connection, job_data['storage_url']),
          self.concurrency)
  \<close>
\<close>

definition ensure_pool :: "pyval \<Rightarrow> worker \<Rightarrow> worker" where
  "ensure_pool storage_url w =
     (if storage_url \<in> dom (conn_pools w) then w
      else (case ConnectionPool storage_url (concurrency w) w of
              (p, w') \<Rightarrow> w'\<lparr>conn_pools := (conn_pools w')(storage_url \<mapsto> p)\<rparr>))"

text \<open>
  \<^verbatim>\<open>
  job = self.work_pull.recv()
  while job:
      job_data = msgpack.loads(job)
      logging.debug('WORK: %13s %s/%-17s',
                    job_data['type'], job_data['container'],
                    job_data['name'])
      if job_data['storage_url'] not in self.conn_pools: ...
      pool.spawn(self.handle_job, job_data)
      job = self.work_pull.recv()
  \<close>
  The messages the channel delivers are a list: an empty message ends the loop, and when
  the list is used up \<^verbatim>\<open>recv\<close> waits.  The arguments of \<^verbatim>\<open>logging.debug\<close> are evaluated
  whatever the log level.  The greenlet that \<^verbatim>\<open>pool.spawn\<close> starts is run to its end
  before the next message is taken (one of the schedules of the cooperative tasks); an
  exception that leaves \<^verbatim>\<open>handle_job\<close> ends that greenlet only.
\<close>

datatype message = EndOfStream | JobMessage job

fun go :: "env \<Rightarrow> message list \<Rightarrow> worker \<Rightarrow> unit outcome \<times> worker" where
  "go e [] w = (Blocked, w)"
| "go e (EndOfStream # ms) w = (Returns (), w)"
| "go e (JobMessage job_data # ms) w =
     (if job_data ''type'' = None then (Raises (KeyError (VStr ''type'')), w)
      else if job_data ''container'' = None then (Raises (KeyError (VStr ''container'')), w)
      else if job_data ''name'' = None then (Raises (KeyError (VStr ''name'')), w)
      else (case job_data ''storage_url'' of
              None \<Rightarrow> (Raises (KeyError (VStr ''storage_url'')), w)
            | Some storage_url \<Rightarrow>
                (case handle_job e (recursion_limit e) job_data (ensure_pool storage_url w) of
                   (r, job_data', w') \<Rightarrow> go e ms w')))"

section \<open>Predicates and sample values used in the statements\<close>

text \<open>
  A pool from which a connection can be borrowed and given back without waiting: it holds
  at least one connection, and no more than its capacity.
\<close>

definition pool_ready :: "pyval \<Rightarrow> worker \<Rightarrow> bool" where
  "pool_ready url w =
     (case conn_pools w url of
        None \<Rightarrow> False
      | Some p \<Rightarrow> queue p \<noteq> [] \<and> length (queue p) \<le> maxsize p)"

text \<open>
  The dict that \<^verbatim>\<open>put_results(object_info, **kwargs)\<close> builds in the state \<open>w\<close>, before it is
  encoded.
\<close>

definition result_record :: "env \<Rightarrow> job \<Rightarrow> job \<Rightarrow> worker \<Rightarrow> job" where
  "result_record e object_info kwargs w =
     add_dicts [object_info]
       ([''completed_at'' \<mapsto> VFloat (time_time e (length (result_queue w))),
         ''worker_id'' \<mapsto> worker_id w] ++ kwargs)"

text \<open>A pool, if the url has one, that holds as many connections as its capacity.\<close>

definition pool_full :: "pyval \<Rightarrow> worker \<Rightarrow> bool" where
  "pool_full url w =
     (case conn_pools w url of None \<Rightarrow> True | Some p \<Rightarrow> length (queue p) = maxsize p)"

text \<open>
  Forgetting the fill letter: in the arguments of a call the payload reader keeps its size
  only; a history of calls is compared after every call in it has been so erased.  A
  storage client is blind to the letter when its answers are the same after erasure.
\<close>

definition erase_args :: "(string \<rightharpoonup> argval) \<Rightarrow> (string \<rightharpoonup> argval)" where
  "erase_args a =
     (\<lambda>k. case a k of
        Some (AReader r) \<Rightarrow> Some (AReader (r\<lparr>letter := [], chunk := []\<rparr>))
      | v \<Rightarrow> v)"

definition erase_letter :: "call \<Rightarrow> call" where
  "erase_letter c = c\<lparr>call_kwargs := erase_args (call_kwargs c)\<rparr>"

definition erase_calls :: "worker \<Rightarrow> worker" where
  "erase_calls w = w\<lparr>calls := map erase_letter (calls w)\<rparr>"

definition letter_blind :: "env \<Rightarrow> bool" where
  "letter_blind e = (\<forall>cs c. client e cs c = client e (map erase_letter cs) (erase_letter c))"

text \<open>The call made for one attempt: the operation on the connection at the head of the pool.\<close>

definition next_call :: "client_op \<Rightarrow> (string \<rightharpoonup> argval) \<Rightarrow> pyval \<Rightarrow> worker \<Rightarrow> call" where
  "next_call fn args url w =
     \<lparr>call_op = fn,
      call_conn = (case conn_pools w url of
                     None \<Rightarrow> HttpConn 0 url
                   | Some p \<Rightarrow> (case queue p of [] \<Rightarrow> HttpConn 0 url | hc # rest \<Rightarrow> hc)),
      call_kwargs = args\<rparr>"

text \<open>
  The state after one use of a pooled connection for the storage call \<open>c\<close>: the call is
  entered in the history and a connection goes to the back of the queue, the borrowed one
  or, after a broken connection, a new one (the borrowed one then being closed).
\<close>

definition used :: "pyval \<Rightarrow> call \<Rightarrow> bool \<Rightarrow> worker \<Rightarrow> worker" where
  "used url c broken w =
     (case conn_pools w url of
        None \<Rightarrow> w
      | Some p \<Rightarrow>
          if broken
          then w\<lparr>conn_pools := (conn_pools w)
                   (url \<mapsto> p\<lparr>queue := tl (queue p) @ [HttpConn (created w) (pool_url p)]\<rparr>),
                 created := Suc (created w),
                 closed_conns := closed_conns w @ [call_conn c],
                 calls := calls w @ [c]\<rparr>
          else w\<lparr>conn_pools := (conn_pools w)(url \<mapsto> p\<lparr>queue := tl (queue p) @ [call_conn c]\<rparr>),
                 calls := calls w @ [c]\<rparr>)"

text \<open>
  A worker with one pool of two connections for the url \<^verbatim>\<open>http://s\<close>, a job for that url,
  and collaborators built around a given storage client.
\<close>

definition sample_url :: pyval where
  "sample_url = VStr ''http://s''"

definition sample_worker :: "int \<Rightarrow> worker" where
  "sample_worker retries =
     \<lparr>worker_id = VInt 7, max_retries = retries, concurrency = 2,
      conn_pools = [sample_url \<mapsto>
        \<lparr>pool_url = sample_url, maxsize = 2,
         queue = [HttpConn 0 sample_url, HttpConn 1 sample_url]\<rparr>],
      result_queue = [], created = 2, closed_conns = [], calls = []\<rparr>"

definition sample_job :: "string \<Rightarrow> job" where
  "sample_job t =
     [''type'' \<mapsto> VStr t, ''storage_url'' \<mapsto> sample_url, ''token'' \<mapsto> VStr ''tok'',
      ''container'' \<mapsto> VStr ''c'', ''name'' \<mapsto> VStr ''o'', ''size'' \<mapsto> VInt 3]"

definition sample_repr :: "exc \<Rightarrow> string" where
  "sample_repr x =
     (case x of
        NoFnResults fn n \<Rightarrow> ''Exception(No fn_results)''
      | ClientException http_status \<Rightarrow> ''ClientException''
      | RuntimeError m \<Rightarrow> ''RuntimeError''
      | _ \<Rightarrow> ''error'')"

text \<open>
  An encoder that refuses a dict whose \<^verbatim>\<open>size\<close> is an integer outside the range of 64
  bits, as \<^verbatim>\<open>msgpack.dumps\<close> does, and encodes every other dict.
\<close>

definition sample_dumps :: "job \<Rightarrow> exc option" where
  "sample_dumps result =
     (case result ''size'' of
        Some (VInt i) \<Rightarrow>
          if - (2 ^ 63) \<le> i \<and> i < 2 ^ 64 then None
          else Some (OverflowError ''Integer value out of range'')
      | _ \<Rightarrow> None)"

definition sample_env :: "(call list \<Rightarrow> call \<Rightarrow> client_outcome) \<Rightarrow> env" where
  "sample_env cl =
     \<lparr>client = cl, py_repr = sample_repr, format_exc = (\<lambda>x. ''Traceback''),
      time_time = (\<lambda>n. real n), int_of_str = (\<lambda>s. None), recursion_limit = 1000,
      msgpack_dumps = sample_dumps\<rparr>"

text \<open>
  Two storage clients: one that answers every call with headers, and one whose first call
  hits a broken connection and whose later calls are answered in the same way.
\<close>

definition healthy :: "call list \<Rightarrow> call \<Rightarrow> client_outcome" where
  "healthy cs c = CReturn (RHeaders [(''x-trans-id'', VStr ''tx1'')])"

definition breaks_once :: "call list \<Rightarrow> call \<Rightarrow> client_outcome" where
  "breaks_once cs c = (case cs of [] \<Rightarrow> CRaise CannotSendRequest | c' # cs' \<Rightarrow> healthy cs c)"

section \<open>Properties of ChunkedReader\<close>

lemma concat_replicate_single: "concat (replicate k [c]) = replicate k c"
  by (induction k) simp_all

lemma reads_keeps_reader: "snd (reads r ns) = r"
  by (induction ns) (auto simp: read_def split: prod.splits)

text \<open>
  Claim C10.  A reader built with a fill letter \<open>c\<close> (the one-character string \<open>[c]\<close>) and any
  size answers \<^verbatim>\<open>read(n)\<close>, for \<open>n \<ge> 0\<close>, with exactly \<open>min n (2 ^ 21)\<close> copies of \<open>c\<close>; the
  answer does not depend on the size the reader was built with, nor on the reads made
  before (the reader is the same object after any sequence of reads).
\<close>

theorem ChunkedReader_read:
  "fst (read (snd (reads (ChunkedReader [c] sz) prev)) (int n)) = replicate (min n (2 ^ 21)) c
   \<and> fst (read (snd (reads (ChunkedReader [c] sz) prev)) (int n))
       = fst (read (ChunkedReader [c] sz') (int n))
   \<and> snd (read (ChunkedReader [c] sz) (int n)) = ChunkedReader [c] sz"
  by (simp add: reads_keeps_reader read_def ChunkedReader_def py_slice_to_def
      concat_replicate_single chunk_size_def min.commute)

section \<open>The connection context\<close>

lemma pool_get_ready:
  "conn_pools w url = Some p \<Longrightarrow> queue p = hc # rest \<Longrightarrow>
   pool_get url w = (Returns hc, w\<lparr>conn_pools := (conn_pools w)(url \<mapsto> p\<lparr>queue := rest\<rparr>)\<rparr>)"
  by (simp add: pool_get_def)

lemma finally_put_room:
  "conn_pools w url = Some p \<Longrightarrow> length (queue p) < maxsize p \<Longrightarrow>
   finally_put url hc r w = (r, w\<lparr>conn_pools := (conn_pools w)(url \<mapsto> p\<lparr>queue := queue p @ [hc]\<rparr>)\<rparr>)"
  by (simp add: finally_put_def pool_put_def)

lemma connection_outcome:
  assumes pool: "conn_pools w url = Some p" "queue p = hc # rest" "length (queue p) \<le> maxsize p"
    and body: "body hc (w\<lparr>conn_pools := (conn_pools w)(url \<mapsto> p\<lparr>queue := rest\<rparr>)\<rparr>) = (r, w2)"
    and kept: "conn_pools w2 = (conn_pools w)(url \<mapsto> p\<lparr>queue := rest\<rparr>)"
    and ends: "r \<noteq> Blocked"
  shows "connection url body w =
     (if r = Raises CannotSendRequest \<or> r = Raises HTTPConnectionClosed
      then (Returns None,
            w2\<lparr>closed_conns := closed_conns w2 @ [hc], created := Suc (created w2),
               conn_pools := (conn_pools w)(url \<mapsto> p\<lparr>queue := rest @ [HttpConn (created w2) (pool_url p)]\<rparr>)\<rparr>)
      else (case r of Returns v \<Rightarrow> Returns (Some v) | Raises x \<Rightarrow> Raises x | Blocked \<Rightarrow> Blocked,
            w2\<lparr>conn_pools := (conn_pools w)(url \<mapsto> p\<lparr>queue := rest @ [hc]\<rparr>)\<rparr>))"
proof -
  have room: "length (queue (p\<lparr>queue := rest\<rparr>)) < maxsize (p\<lparr>queue := rest\<rparr>)"
    using pool by simp
  have at2: "conn_pools w2 url = Some (p\<lparr>queue := rest\<rparr>)"
    using kept by simp
  show ?thesis
  proof (cases r)
    case (Returns v)
    then show ?thesis
      using body kept finally_put_room [OF at2 room]
      by (simp add: connection_def pool_get_ready [OF pool(1,2)])
  next
    case (Raises x)
    show ?thesis
    proof (cases "x = CannotSendRequest \<or> x = HTTPConnectionClosed")
      case True
      let ?w3 = "w2\<lparr>closed_conns := closed_conns w2 @ [hc]\<rparr>"
      let ?w4 = "?w3\<lparr>created := Suc (created w2)\<rparr>"
      have at4: "conn_pools ?w4 url = Some (p\<lparr>queue := rest\<rparr>)"
        using at2 by simp
      have cr: "pool_create url ?w3 = (Returns (HttpConn (created w2) (pool_url p)), ?w4)"
        using at2 by (simp add: pool_create_def)
      show ?thesis
        using True Raises body kept cr finally_put_room [OF at4 room]
        by (simp add: connection_def pool_get_ready [OF pool(1,2)])
    next
      case False
      then show ?thesis
        using Raises body kept finally_put_room [OF at2 room]
        by (simp add: connection_def pool_get_ready [OF pool(1,2)])
    qed
  next
    case Blocked
    then show ?thesis using ends by simp
  qed
qed

lemma connection_call_fn:
  assumes "pool_ready url w"
  shows "connection url (call_fn e fn args) w =
     (case client e (calls w) (next_call fn args url w) of
        CReturn r \<Rightarrow> (Returns (Some r), used url (next_call fn args url w) False w)
      | CRaise x \<Rightarrow>
          if x = CannotSendRequest \<or> x = HTTPConnectionClosed
          then (Returns None, used url (next_call fn args url w) True w)
          else (Raises x, used url (next_call fn args url w) False w))"
proof -
  from assms obtain p hc rest where
    pool: "conn_pools w url = Some p" "queue p = hc # rest" "length (queue p) \<le> maxsize p"
    by (cases "conn_pools w url"; cases "queue (the (conn_pools w url))")
       (auto simp: pool_ready_def)
  let ?w1 = "w\<lparr>conn_pools := (conn_pools w)(url \<mapsto> p\<lparr>queue := rest\<rparr>)\<rparr>"
  let ?c = "next_call fn args url w"
  have c: "?c = \<lparr>call_op = fn, call_conn = hc, call_kwargs = args\<rparr>"
    using pool by (simp add: next_call_def)
  show ?thesis
  proof (cases "client e (calls w) ?c")
    case (CReturn r)
    have body: "call_fn e fn args hc ?w1 = (Returns r, ?w1\<lparr>calls := calls w @ [?c]\<rparr>)"
      using CReturn c by (simp add: call_fn_def)
    show ?thesis
      using connection_outcome [where body = "call_fn e fn args", OF pool body] CReturn pool c
      by (simp add: used_def)
  next
    case (CRaise x)
    have body: "call_fn e fn args hc ?w1 = (Raises x, ?w1\<lparr>calls := calls w @ [?c]\<rparr>)"
      using CRaise c by (simp add: call_fn_def)
    show ?thesis
      using connection_outcome [where body = "call_fn e fn args", OF pool body] CRaise pool c
      by (auto simp add: used_def)
  qed
qed

lemma used_fields:
  "max_retries (used url c b w) = max_retries w"
  "result_queue (used url c b w) = result_queue w"
  "worker_id (used url c b w) = worker_id w"
  "concurrency (used url c b w) = concurrency w"
  by (simp_all add: used_def split: option.splits)

lemma used_calls:
  "pool_ready url w \<Longrightarrow> calls (used url c b w) = calls w @ [c]"
  by (auto simp: used_def pool_ready_def split: option.splits)

lemma used_ready:
  "pool_ready url w \<Longrightarrow> pool_ready url (used url c b w)"
  by (auto simp: used_def pool_ready_def split: option.splits list.splits)

lemma attempt_ready:
  assumes "pool_ready url w"
  shows "attempt e statuses fn url args tries w =
     (case client e (calls w) (next_call fn args url w) of
        CReturn r \<Rightarrow>
          (if fn_truthy r then Break r
           else if tries + 1 > max_retries w then Raise (NoFnResults fn (max_retries w))
           else Continue (tries + 1),
           used url (next_call fn args url w) False w)
      | CRaise x \<Rightarrow>
          if x = CannotSendRequest \<or> x = HTTPConnectionClosed
          then (if tries + 1 > max_retries w then Raise (NoFnResults fn (max_retries w))
                else Continue (tries + 1),
                used url (next_call fn args url w) True w)
          else (case x of
                  SocketError m \<Rightarrow> if tries + 1 > max_retries w then Raise x else Continue (tries + 1)
                | ClientException http_status \<Rightarrow>
                    if http_status \<in> set statuses \<and> tries + 1 \<le> max_retries w
                    then Continue (tries + 1) else Raise x
                | _ \<Rightarrow> Raise x,
                used url (next_call fn args url w) False w))"
  unfolding attempt_def connection_call_fn [OF assms]
  by (simp add: used_fields split: client_outcome.splits exc.splits)

section \<open>The retry executor: properties\<close>

lemma retry_loop_unfold:
  "retry_loop e statuses fn url args tries w =
     (case attempt e statuses fn url args tries w of
        (Break r, w') \<Rightarrow> (Returns r, w')
      | (Raise x, w') \<Rightarrow> (Raises x, w')
      | (Block, w') \<Rightarrow> (Blocked, w')
      | (Continue t, w') \<Rightarrow> retry_loop e statuses fn url args t w')"
  by (rule retry_loop.simps)

lemma retry_loop_falsy:
  "\<forall>cs c. \<exists>r. client e cs c = CReturn r \<and> \<not> fn_truthy r \<Longrightarrow> pool_ready url w \<Longrightarrow>
   fst (retry_loop e statuses fn url args tries w) = Raises (NoFnResults fn (max_retries w))
   \<and> length (calls (snd (retry_loop e statuses fn url args tries w)))
       = length (calls w) + nat (max_retries w - tries) + 1"
proof (induction e statuses fn url args tries w rule: retry_loop.induct)
  case (1 e statuses fn url args tries w)
  let ?c = "next_call fn args url w"
  let ?w' = "used url ?c False w"
  from "1.prems"(1) obtain r where r: "client e (calls w) ?c = CReturn r" "\<not> fn_truthy r"
    by blast
  show ?case
  proof (cases "tries + 1 > max_retries w")
    case True
    have "attempt e statuses fn url args tries w = (Raise (NoFnResults fn (max_retries w)), ?w')"
      using r True by (simp add: attempt_ready [OF "1.prems"(2)])
    then show ?thesis
      using True by (simp add: retry_loop_unfold [of e statuses fn url args tries w]
          used_calls [OF "1.prems"(2)])
  next
    case False
    have att: "attempt e statuses fn url args tries w = (Continue (tries + 1), ?w')"
      using r False by (simp add: attempt_ready [OF "1.prems"(2)])
    have step: "retry_loop e statuses fn url args tries w
        = retry_loop e statuses fn url args (tries + 1) ?w'"
      using att by (simp add: retry_loop_unfold [of e statuses fn url args tries w])
    have ih: "fst (retry_loop e statuses fn url args (tries + 1) ?w')
          = Raises (NoFnResults fn (max_retries ?w'))
        \<and> length (calls (snd (retry_loop e statuses fn url args (tries + 1) ?w')))
          = length (calls ?w') + nat (max_retries ?w' - (tries + 1)) + 1"
      using "1.IH" [OF att [symmetric] refl "1.prems"(1) used_ready [OF "1.prems"(2)]] .
    have "nat (max_retries w - (tries + 1)) + 1 = nat (max_retries w - tries)"
      using False by simp
    then show ?thesis
      using ih step by (simp add: used_fields used_calls [OF "1.prems"(2)])
  qed
qed

text \<open>
  Claim C2.  When every invocation of the wrapped operation returns a false result and
  \<^verbatim>\<open>max_retries\<close> is \<open>N\<close>, \<^verbatim>\<open>ignoring_http_responses\<close> invokes the operation exactly
  \<open>N + 1\<close> times and then raises the exception "No fn_results ... after N retries"; each
  of the attempts before the last goes round the loop again without raising.  (The job
  has the four keys the call needs and the pool of its url can lend a connection.)
\<close>

theorem ignoring_http_responses_exhausts:
  assumes keys: "call_info ''storage_url'' = Some url" "call_info ''token'' = Some tok"
      "call_info ''container'' = Some cont" "call_info ''name'' = Some nm"
    and ready: "pool_ready url w"
    and limit: "max_retries w = int N"
    and falsy: "\<forall>cs c. \<exists>r. client e cs c = CReturn r \<and> \<not> fn_truthy r"
  shows "fst (ignoring_http_responses e statuses fn call_info extra_keys w)
           = Raises (NoFnResults fn (int N))
       \<and> length (calls (snd (ignoring_http_responses e statuses fn call_info extra_keys w)))
           = length (calls w) + (N + 1)
       \<and> (\<forall>t v args. 0 \<le> t \<and> t < int N \<and> pool_ready url v \<and> max_retries v = int N
            \<longrightarrow> fst (attempt e statuses fn url args t v) = Continue (t + 1))"
proof -
  have early: "fst (attempt e statuses fn url args t v) = Continue (t + 1)"
    if "0 \<le> t" "t < int N" "pool_ready url v" "max_retries v = int N" for t v args
  proof -
    from falsy obtain r where "client e (calls v) (next_call fn args url v) = CReturn r"
      "\<not> fn_truthy r" by blast
    then show ?thesis
      using that by (simp add: attempt_ready)
  qed
  show ?thesis
    using retry_loop_falsy [OF falsy ready, where tries = 0] keys limit early
    by (simp add: ignoring_http_responses_def)
qed

theorem ignoring_http_responses_exhausts_witness:
  "fst (ignoring_http_responses (sample_env (\<lambda>cs c. CReturn RNone)) [404, 503] DeleteObject
          (sample_job ''delete_object'') Map.empty (sample_worker 2))
     = Raises (NoFnResults DeleteObject 2)
   \<and> length (calls (snd (ignoring_http_responses (sample_env (\<lambda>cs c. CReturn RNone)) [404, 503]
          DeleteObject (sample_job ''delete_object'') Map.empty (sample_worker 2)))) = 3"
  using ignoring_http_responses_exhausts [of "sample_job ''delete_object''" sample_url
      "VStr ''tok''" "VStr ''c''" "VStr ''o''" "sample_worker 2" 2
      "sample_env (\<lambda>cs c. CReturn RNone)" "[404, 503]" DeleteObject Map.empty]
  by (simp add: sample_job_def sample_worker_def sample_env_def sample_url_def pool_ready_def)

text \<open>
  Claim C3.  When the wrapped operation raises a storage-client error with an HTTP status,
  the attempt is followed by another one only if the status is in the caller's set and
  \<^verbatim>\<open>tries\<close>, once incremented, is still within \<^verbatim>\<open>max_retries\<close>; otherwise the error is
  raised again.  For a status outside the set \<^verbatim>\<open>ignoring_http_responses\<close> raises the error
  after exactly one invocation.
\<close>

theorem client_error_retry_rule:
  assumes keys: "call_info ''storage_url'' = Some url" "call_info ''token'' = Some tok"
      "call_info ''container'' = Some cont" "call_info ''name'' = Some nm"
    and ready: "pool_ready url w"
    and raises: "\<forall>c. client e (calls w) c = CRaise (ClientException s)"
  shows "fst (attempt e statuses fn url args tries w)
           = (if s \<in> set statuses \<and> tries + 1 \<le> max_retries w then Continue (tries + 1)
              else Raise (ClientException s))
       \<and> (s \<notin> set statuses \<longrightarrow>
            fst (ignoring_http_responses e statuses fn call_info extra_keys w)
              = Raises (ClientException s)
            \<and> length (calls (snd (ignoring_http_responses e statuses fn call_info extra_keys w)))
              = length (calls w) + 1)"
proof -
  have att: "attempt e statuses fn url args tries w
      = (if s \<in> set statuses \<and> tries + 1 \<le> max_retries w then Continue (tries + 1)
         else Raise (ClientException s), used url (next_call fn args url w) False w)"
    for args tries
    using raises by (simp add: attempt_ready [OF ready])
  show ?thesis
    using keys
    by (simp add: att ignoring_http_responses_def retry_loop_unfold [of _ _ _ _ _ 0 w]
        used_calls [OF ready])
qed

theorem client_error_retry_rule_witness:
  "fst (ignoring_http_responses (sample_env (\<lambda>cs c. CRaise (ClientException 500))) [404, 503]
          DeleteObject (sample_job ''delete_object'') Map.empty (sample_worker 5))
     = Raises (ClientException 500)
   \<and> length (calls (snd (ignoring_http_responses (sample_env (\<lambda>cs c. CRaise (ClientException 500)))
          [404, 503] DeleteObject (sample_job ''delete_object'') Map.empty (sample_worker 5)))) = 1
   \<and> fst (attempt (sample_env (\<lambda>cs c. CRaise (ClientException 500))) [500] DeleteObject
          sample_url Map.empty 0 (sample_worker 5)) = Continue 1"
  using client_error_retry_rule [of "sample_job ''delete_object''" sample_url
      "VStr ''tok''" "VStr ''c''" "VStr ''o''" "sample_worker 5"
      "sample_env (\<lambda>cs c. CRaise (ClientException 500))" 500 "[404, 503]" DeleteObject Map.empty 0
      Map.empty]
    client_error_retry_rule [of "sample_job ''delete_object''" sample_url
      "VStr ''tok''" "VStr ''c''" "VStr ''o''" "sample_worker 5"
      "sample_env (\<lambda>cs c. CRaise (ClientException 500))" 500 "[500]" DeleteObject Map.empty 0
      Map.empty]
  by (simp add: sample_job_def sample_worker_def sample_env_def sample_url_def pool_ready_def)

text \<open>
  Claim C6, as amended.  When the wrapped operation raises cannot-send or
  connection-closed, the connection context lets no exception out: the borrowed connection
  is closed, a new one goes to the pool, and the \<^verbatim>\<open>with\<close> statement completes.  The fault
  is not hidden from the retry executor: it has no result for that attempt and counts it
  as a failed attempt, so the loop goes round again while attempts remain and raises
  "No fn_results" once they are used up.
\<close>

theorem broken_connection_is_failed_attempt:
  assumes ready: "pool_ready url w"
    and broken: "client e (calls w) (next_call fn args url w) = CRaise x"
      "x = CannotSendRequest \<or> x = HTTPConnectionClosed"
  shows "connection url (call_fn e fn args) w
           = (Returns None, used url (next_call fn args url w) True w)
       \<and> attempt e statuses fn url args tries w
           = (if tries + 1 > max_retries w then Raise (NoFnResults fn (max_retries w))
              else Continue (tries + 1),
              used url (next_call fn args url w) True w)
       \<and> retry_loop e statuses fn url args tries w
           = (if tries + 1 > max_retries w
              then (Raises (NoFnResults fn (max_retries w)),
                    used url (next_call fn args url w) True w)
              else retry_loop e statuses fn url args (tries + 1)
                     (used url (next_call fn args url w) True w))
       \<and> closed_conns (used url (next_call fn args url w) True w)
           = closed_conns w @ [call_conn (next_call fn args url w)]
       \<and> created (used url (next_call fn args url w) True w) = Suc (created w)
       \<and> (\<exists>p. conn_pools w url = Some p
              \<and> conn_pools (used url (next_call fn args url w) True w) url
                  = Some (p\<lparr>queue := tl (queue p) @ [HttpConn (created w) (pool_url p)]\<rparr>))"
proof -
  have att: "attempt e statuses fn url args tries w
           = (if tries + 1 > max_retries w then Raise (NoFnResults fn (max_retries w))
              else Continue (tries + 1),
              used url (next_call fn args url w) True w)"
    using broken by (auto simp add: attempt_ready [OF ready])
  have con: "connection url (call_fn e fn args) w
           = (Returns None, used url (next_call fn args url w) True w)"
    using broken by (auto simp add: connection_call_fn [OF ready])
  have loop: "retry_loop e statuses fn url args tries w
           = (if tries + 1 > max_retries w
              then (Raises (NoFnResults fn (max_retries w)),
                    used url (next_call fn args url w) True w)
              else retry_loop e statuses fn url args (tries + 1)
                     (used url (next_call fn args url w) True w))"
    by (simp add: retry_loop_unfold [of e statuses fn url args tries w] att)
  have st: "closed_conns (used url (next_call fn args url w) True w)
           = closed_conns w @ [call_conn (next_call fn args url w)]
       \<and> created (used url (next_call fn args url w) True w) = Suc (created w)
       \<and> (\<exists>p. conn_pools w url = Some p
              \<and> conn_pools (used url (next_call fn args url w) True w) url
                  = Some (p\<lparr>queue := tl (queue p) @ [HttpConn (created w) (pool_url p)]\<rparr>))"
    using ready by (auto simp: used_def pool_ready_def split: option.splits)
  show ?thesis
    using att con loop st by blast
qed

theorem broken_connection_is_failed_attempt_witness:
  "connection sample_url (call_fn (sample_env breaks_once) DeleteObject Map.empty) (sample_worker 1)
     = (Returns None,
        used sample_url (next_call DeleteObject Map.empty sample_url (sample_worker 1)) True
          (sample_worker 1))
   \<and> fst (attempt (sample_env breaks_once) [404, 503] DeleteObject sample_url Map.empty 0
          (sample_worker 1)) = Continue 1
   \<and> map conn_id (queue (the (conn_pools (snd (attempt (sample_env breaks_once) [404, 503]
          DeleteObject sample_url Map.empty 0 (sample_worker 1))) sample_url))) = [1, 2]
   \<and> map conn_id (closed_conns (snd (attempt (sample_env breaks_once) [404, 503]
          DeleteObject sample_url Map.empty 0 (sample_worker 1)))) = [0]"
  using broken_connection_is_failed_attempt [of sample_url "sample_worker 1"
      "sample_env breaks_once" DeleteObject Map.empty CannotSendRequest "[404, 503]" 0]
  by (simp add: sample_worker_def sample_env_def sample_url_def pool_ready_def breaks_once_def
      used_def next_call_def)

section \<open>What the retry executor leaves alone, and what it returns\<close>

lemma finally_put_frame:
  "finally_put url hc r w = (r', w') \<Longrightarrow>
   result_queue w' = result_queue w \<and> max_retries w' = max_retries w \<and> worker_id w' = worker_id w
   \<and> concurrency w' = concurrency w \<and> calls w' = calls w \<and> (r' = r \<or> r' = Blocked \<or> (\<exists>k. r' = Raises (KeyError k)))"
  by (auto simp: finally_put_def pool_put_def split: option.splits if_splits prod.splits outcome.splits)

lemma connection_frame:
  assumes "connection url (call_fn e fn args) w = (r, w')"
  shows "result_queue w' = result_queue w \<and> max_retries w' = max_retries w
    \<and> worker_id w' = worker_id w \<and> concurrency w' = concurrency w"
  using assms
  by (auto simp: connection_def call_fn_def pool_get_def pool_create_def Let_def
      split: option.splits list.splits prod.splits outcome.splits if_splits client_outcome.splits
      dest!: finally_put_frame)

lemma connection_returned:
  assumes "connection url (call_fn e fn args) w = (Returns (Some v), w')"
  shows "\<exists>c. calls w' = calls w @ [c] \<and> client e (calls w) c = CReturn v"
  using assms
  by (auto simp: connection_def call_fn_def pool_get_def pool_create_def Let_def
      split: option.splits list.splits prod.splits outcome.splits if_splits client_outcome.splits
      dest!: finally_put_frame)

lemma attempt_frame:
  assumes "attempt e statuses fn url args tries w = (s, w')"
  shows "result_queue w' = result_queue w \<and> max_retries w' = max_retries w
    \<and> worker_id w' = worker_id w \<and> concurrency w' = concurrency w"
proof -
  obtain r where "connection url (call_fn e fn args) w = (r, w')"
    using assms
    by (auto simp: attempt_def Let_def split: prod.splits outcome.splits if_splits exc.splits)
  then show ?thesis by (rule connection_frame)
qed

lemma attempt_break:
  assumes "attempt e statuses fn url args tries w = (Break r, w')"
  shows "fn_truthy r \<and> (\<exists>c. calls w' = calls w @ [c] \<and> client e (calls w) c = CReturn r)"
proof -
  have "connection url (call_fn e fn args) w = (Returns (Some r), w') \<and> fn_truthy r"
    using assms
    by (auto simp: attempt_def Let_def split: prod.splits outcome.splits if_splits exc.splits
        option.splits)
  then show ?thesis using connection_returned by blast
qed

lemma retry_loop_frame:
  "retry_loop e statuses fn url args tries w = (r, w') \<Longrightarrow>
   result_queue w' = result_queue w \<and> max_retries w' = max_retries w
   \<and> worker_id w' = worker_id w \<and> concurrency w' = concurrency w"
proof (induction e statuses fn url args tries w rule: retry_loop.induct)
  case (1 e statuses fn url args tries w)
  obtain s w1 where att: "attempt e statuses fn url args tries w = (s, w1)"
    by (cases "attempt e statuses fn url args tries w")
  note fr = attempt_frame [OF att]
  show ?case
  proof (cases s)
    case (Continue t)
    have "retry_loop e statuses fn url args t w1 = (r, w')"
      using "1.prems" att Continue by (simp add: retry_loop_unfold [of e statuses fn url args tries w])
    from "1.IH" [OF att [symmetric] Continue this] fr show ?thesis by simp
  qed (use "1.prems" att fr in \<open>auto simp: retry_loop_unfold [of e statuses fn url args tries w]\<close>)
qed

lemma retry_loop_returns:
  "retry_loop e statuses fn url args tries w = (Returns r, w') \<Longrightarrow>
   fn_truthy r \<and> (\<exists>cs c. calls w' = cs @ [c] \<and> client e cs c = CReturn r)"
proof (induction e statuses fn url args tries w rule: retry_loop.induct)
  case (1 e statuses fn url args tries w)
  obtain s w1 where att: "attempt e statuses fn url args tries w = (s, w1)"
    by (cases "attempt e statuses fn url args tries w")
  show ?case
  proof (cases s)
    case (Continue t)
    have "retry_loop e statuses fn url args t w1 = (Returns r, w')"
      using "1.prems" att Continue by (simp add: retry_loop_unfold [of e statuses fn url args tries w])
    from "1.IH" [OF att [symmetric] Continue this] show ?thesis .
  next
    case (Break r')
    then have "r' = r" "w1 = w'"
      using "1.prems" att by (simp_all add: retry_loop_unfold [of e statuses fn url args tries w])
    then show ?thesis using attempt_break att Break by blast
  qed (use "1.prems" att in \<open>auto simp: retry_loop_unfold [of e statuses fn url args tries w]\<close>)
qed

lemma ignoring_http_responses_frame:
  "ignoring_http_responses e statuses fn call_info extra_keys w = (r, w') \<Longrightarrow>
   result_queue w' = result_queue w \<and> max_retries w' = max_retries w
   \<and> worker_id w' = worker_id w \<and> concurrency w' = concurrency w"
  by (auto simp: ignoring_http_responses_def split: option.splits dest: retry_loop_frame)

lemma ignoring_http_responses_returns:
  "ignoring_http_responses e statuses fn call_info extra_keys w = (Returns r, w') \<Longrightarrow>
   fn_truthy r \<and> (\<exists>cs c. calls w' = cs @ [c] \<and> client e cs c = CReturn r)"
  by (auto simp: ignoring_http_responses_def split: option.splits dest: retry_loop_returns)

section \<open>The dispatcher: properties\<close>

lemma put_results_eq:
  "put_results e [object_info] kwargs w =
     (case msgpack_dumps e (result_record e object_info kwargs w) of
        Some x \<Rightarrow> (Raises x, w)
      | None \<Rightarrow>
          (Returns (), w\<lparr>result_queue := result_queue w @ [result_record e object_info kwargs w]\<rparr>))"
  by (simp add: put_results_def result_record_def Let_def split: option.splits)

lemma put_results_raises:
  "put_results e args kwargs w = (Raises x, w') \<Longrightarrow> w' = w"
  by (auto simp: put_results_def Let_def split: option.splits)

lemma put_results_frame:
  "put_results e args kwargs w = (r, w') \<Longrightarrow>
   worker_id w' = worker_id w \<and> max_retries w' = max_retries w \<and> concurrency w' = concurrency w
   \<and> conn_pools w' = conn_pools w \<and> calls w' = calls w \<and> r \<noteq> Blocked"
  by (auto simp: put_results_def Let_def split: option.splits)

lemma put_results_from_response_raises:
  "put_results_from_response e object_info h w = (Raises x, w') \<Longrightarrow> w' = w"
  by (auto simp: put_results_from_response_def dest: put_results_raises)

lemma handle_upload_object_raises:
  "handle_upload_object e job_data l w = (Raises x, job_data', w') \<Longrightarrow>
   result_queue w' = result_queue w \<and> worker_id w' = worker_id w"
  by (auto simp: handle_upload_object_def Let_def
      split: option.splits sum.splits prod.splits outcome.splits fn_result.splits
      dest: ignoring_http_responses_frame put_results_from_response_raises)

lemma handle_delete_object_raises:
  "handle_delete_object e job_data w = (Raises x, job_data', w') \<Longrightarrow>
   result_queue w' = result_queue w \<and> worker_id w' = worker_id w"
  by (auto simp: handle_delete_object_def
      split: prod.splits outcome.splits fn_result.splits
      dest: ignoring_http_responses_frame put_results_from_response_raises)

lemma handle_get_object_raises:
  "handle_get_object e job_data w = (Raises x, job_data', w') \<Longrightarrow>
   result_queue w' = result_queue w \<and> worker_id w' = worker_id w"
  by (auto simp: handle_get_object_def
      split: prod.splits outcome.splits fn_result.splits if_splits
      dest: ignoring_http_responses_frame put_results_from_response_raises)

lemma handle_noop_raises:
  "handle_noop e job_data w = (Raises x, job_data', w') \<Longrightarrow>
   result_queue w' = result_queue w \<and> worker_id w' = worker_id w"
  by (auto simp: handle_noop_def split: prod.splits dest: put_results_raises)

lemma try_handler_raises:
  assumes "try_handler e (r0, jd0, w0) = (Raises x, job_data', w')"
  shows "\<exists>x0. r0 = Raises x0 \<and> w' = w0 \<and> job_data' = jd0"
  using assms
  by (cases r0)
     (auto simp: try_handler_def split: if_splits prod.splits dest: put_results_raises)

lemma call_handler_raises_gen:
  assumes "call_handler e self_handle_job h job_data w = (Raises x, job_data', w')"
    and self: "\<And>jd v y jd' v'. self_handle_job jd v = (Raises y, jd', v') \<Longrightarrow>
        result_queue v' = result_queue v \<and> worker_id v' = worker_id v"
  shows "result_queue w' = result_queue w \<and> worker_id w' = worker_id w"
proof (cases h)
  case HandleJob
  then show ?thesis using assms by (auto simp: call_handler_def)
next
  case HandleNoop
  then show ?thesis using assms(1) handle_noop_raises by (simp add: call_handler_def)
next
  case HandleUploadObject
  then show ?thesis using assms(1) handle_upload_object_raises by (simp add: call_handler_def)
next
  case HandleUpdateObject
  then show ?thesis using assms(1) handle_upload_object_raises
    by (simp add: call_handler_def handle_update_object_def)
next
  case HandleDeleteObject
  then show ?thesis using assms(1) handle_delete_object_raises by (simp add: call_handler_def)
next
  case HandleGetObject
  then show ?thesis using assms(1) handle_get_object_raises by (simp add: call_handler_def)
qed

lemma handle_job_raises:
  "handle_job e depth job_data w = (Raises x, job_data', w') \<Longrightarrow>
   result_queue w' = result_queue w \<and> worker_id w' = worker_id w"
proof (induction depth arbitrary: job_data w x job_data' w')
  case 0
  then show ?case by simp
next
  case (Suc depth)
  show ?case
  proof (cases "resolve_handler job_data")
    case (Inl y)
    then show ?thesis using Suc.prems by simp
  next
    case (Inr ho)
    show ?thesis
    proof (cases ho)
      case None
      then show ?thesis using Suc.prems Inr by (auto split: option.splits)
    next
      case (Some h)
      obtain r1 jd1 w1 where ch: "call_handler e (handle_job e depth) h job_data w = (r1, jd1, w1)"
        by (cases "call_handler e (handle_job e depth) h job_data w")
      then have "try_handler e (r1, jd1, w1) = (Raises x, job_data', w')"
        using Suc.prems Inr Some by simp
      from try_handler_raises [OF this] obtain x0 where
        r1: "r1 = Raises x0" "w' = w1" by blast
      from call_handler_raises_gen [OF ch [unfolded r1(1)]] Suc.IH
      have "result_queue w1 = result_queue w \<and> worker_id w1 = worker_id w"
        by blast
      then show ?thesis using r1 by simp
    qed
  qed
qed

lemma call_handler_raises:
  assumes "call_handler e (handle_job e depth) h job_data w = (Raises x, job_data', w')"
  shows "result_queue w' = result_queue w \<and> worker_id w' = worker_id w"
  using call_handler_raises_gen [OF assms] handle_job_raises by blast

lemma handle_job_failure_result:
  assumes found: "resolve_handler job_data = Inr (Some h)"
    and raised: "call_handler e (handle_job e depth) h job_data w = (Raises x, job_data', w')"
    and caught: "is_Exception x"
    and encodes: "msgpack_dumps e
        (result_record e job_data'
           [''exception'' \<mapsto> VStr (py_repr e x), ''traceback'' \<mapsto> VStr (format_exc e x)] w') = None"
  shows "handle_job e (Suc depth) job_data w =
           (Returns (), job_data',
            w'\<lparr>result_queue := result_queue w @
               [result_record e job_data'
                  [''exception'' \<mapsto> VStr (py_repr e x),
                   ''traceback'' \<mapsto> VStr (format_exc e x)] w']\<rparr>)"
  using found raised caught encodes call_handler_raises [OF raised]
  by (simp add: try_handler_def put_results_eq)

lemma handle_job_failure_lost:
  assumes found: "resolve_handler job_data = Inr (Some h)"
    and raised: "call_handler e (handle_job e depth) h job_data w = (Raises x, job_data', w')"
    and lost: "\<not> is_Exception x \<or> msgpack_dumps e
        (result_record e job_data'
           [''exception'' \<mapsto> VStr (py_repr e x), ''traceback'' \<mapsto> VStr (format_exc e x)] w') \<noteq> None"
  shows "\<exists>y. handle_job e (Suc depth) job_data w = (Raises y, job_data', w')"
  using found raised lost
  by (auto simp add: try_handler_def put_results_eq)

lemma go_step:
  assumes "job_data ''storage_url'' = Some url" "job_data ''type'' \<noteq> None"
    "job_data ''container'' \<noteq> None" "job_data ''name'' \<noteq> None"
  shows "go e (JobMessage job_data # ms) w
    = go e ms (snd (snd (handle_job e (recursion_limit e) job_data (ensure_pool url w))))"
  using assms by (auto simp del: handle_job.simps split: prod.splits)

text \<open>
  Claim C1, as amended.  When the handler resolved for a job raises an exception of a
  class deriving from \<^verbatim>\<open>Exception\<close>, and the failure record can be encoded,
  \<^verbatim>\<open>handle_job\<close> catches the exception, puts exactly one record on the result queue (the
  handler itself has put none), made of the job's fields, the completion time, the worker
  id, the exception's \<^verbatim>\<open>repr\<close> and the formatted traceback, and returns without raising;
  the intake loop goes on with the messages that follow.
\<close>

theorem handle_job_catches:
  assumes found: "resolve_handler job_data = Inr (Some h)"
    and raised: "call_handler e (handle_job e depth) h job_data w = (Raises x, job_data', w')"
    and caught: "is_Exception x"
    and encodes: "msgpack_dumps e
        (result_record e job_data'
           [''exception'' \<mapsto> VStr (py_repr e x), ''traceback'' \<mapsto> VStr (format_exc e x)] w') = None"
  shows "handle_job e (Suc depth) job_data w =
           (Returns (), job_data',
            w'\<lparr>result_queue := result_queue w @
               [result_record e job_data'
                  [''exception'' \<mapsto> VStr (py_repr e x),
                   ''traceback'' \<mapsto> VStr (format_exc e x)] w']\<rparr>)
       \<and> result_record e job_data'
             [''exception'' \<mapsto> VStr (py_repr e x), ''traceback'' \<mapsto> VStr (format_exc e x)] w'
           = job_data' ++
             [''completed_at'' \<mapsto> VFloat (time_time e (length (result_queue w))),
              ''worker_id'' \<mapsto> worker_id w,
              ''exception'' \<mapsto> VStr (py_repr e x),
              ''traceback'' \<mapsto> VStr (format_exc e x)]
       \<and> (\<forall>url w0 ms.
             recursion_limit e = Suc depth \<and> w = ensure_pool url w0
             \<and> job_data ''storage_url'' = Some url \<and> job_data ''type'' \<noteq> None
             \<and> job_data ''container'' \<noteq> None \<and> job_data ''name'' \<noteq> None
             \<longrightarrow> go e (JobMessage job_data # ms) w0
                   = go e ms (snd (snd (handle_job e (Suc depth) job_data w))))"
proof (intro conjI allI impI)
  show "handle_job e (Suc depth) job_data w =
           (Returns (), job_data',
            w'\<lparr>result_queue := result_queue w @
               [result_record e job_data'
                  [''exception'' \<mapsto> VStr (py_repr e x),
                   ''traceback'' \<mapsto> VStr (format_exc e x)] w']\<rparr>)"
    by (rule handle_job_failure_result [OF found raised caught encodes])
next
  show "result_record e job_data'
             [''exception'' \<mapsto> VStr (py_repr e x), ''traceback'' \<mapsto> VStr (format_exc e x)] w'
           = job_data' ++
             [''completed_at'' \<mapsto> VFloat (time_time e (length (result_queue w))),
              ''worker_id'' \<mapsto> worker_id w,
              ''exception'' \<mapsto> VStr (py_repr e x),
              ''traceback'' \<mapsto> VStr (format_exc e x)]"
    using call_handler_raises [OF raised]
    by (simp add: result_record_def add_dicts_def)
next
  fix url w0 ms
  assume a: "recursion_limit e = Suc depth \<and> w = ensure_pool url w0
             \<and> job_data ''storage_url'' = Some url \<and> job_data ''type'' \<noteq> None
             \<and> job_data ''container'' \<noteq> None \<and> job_data ''name'' \<noteq> None"
  then have "go e (JobMessage job_data # ms) w0
      = go e ms (snd (snd (handle_job e (recursion_limit e) job_data (ensure_pool url w0))))"
    by (intro go_step) simp_all
  then show "go e (JobMessage job_data # ms) w0
      = go e ms (snd (snd (handle_job e (Suc depth) job_data w)))"
    using a by (simp del: handle_job.simps go.simps)
qed

lemma ignoring_http_responses_first:
  assumes keys: "call_info ''storage_url'' = Some url" "call_info ''token'' = Some tok"
      "call_info ''container'' = Some cont" "call_info ''name'' = Some nm"
  shows "ignoring_http_responses e statuses fn call_info extra_keys w =
     (case attempt e statuses fn url
             ([''url'' \<mapsto> APy url, ''token'' \<mapsto> APy tok, ''container'' \<mapsto> APy cont,
               ''name'' \<mapsto> APy nm] ++ extra_keys) 0 w of
        (Break r, w') \<Rightarrow> (Returns r, w')
      | (Raise x, w') \<Rightarrow> (Raises x, w')
      | (Block, w') \<Rightarrow> (Blocked, w')
      | (Continue t, w') \<Rightarrow>
          retry_loop e statuses fn url
            ([''url'' \<mapsto> APy url, ''token'' \<mapsto> APy tok, ''container'' \<mapsto> APy cont,
              ''name'' \<mapsto> APy nm] ++ extra_keys) t w')"
  using keys by (simp add: ignoring_http_responses_def retry_loop_unfold [of _ _ _ _ _ 0 w])

lemma ignoring_http_responses_client_error:
  assumes keys: "call_info ''storage_url'' = Some url" "call_info ''token'' = Some tok"
      "call_info ''container'' = Some cont" "call_info ''name'' = Some nm"
    and ready: "pool_ready url w"
    and raises: "\<forall>c. client e (calls w) c = CRaise (ClientException s)"
    and outside: "s \<notin> set statuses"
  shows "ignoring_http_responses e statuses fn call_info extra_keys w =
     (Raises (ClientException s),
      used url (next_call fn ([''url'' \<mapsto> APy url, ''token'' \<mapsto> APy tok, ''container'' \<mapsto> APy cont,
              ''name'' \<mapsto> APy nm] ++ extra_keys) url w) False w)"
  using raises outside
  by (simp add: ignoring_http_responses_first [OF keys] attempt_ready [OF ready])

lemma sample_ready: "pool_ready sample_url (sample_worker n)"
  by (simp add: pool_ready_def sample_worker_def)

lemma sample_keys:
  "sample_job t ''storage_url'' = Some sample_url" "sample_job t ''token'' = Some (VStr ''tok'')"
  "sample_job t ''container'' = Some (VStr ''c'')" "sample_job t ''name'' = Some (VStr ''o'')"
  by (simp_all add: sample_job_def)

lemma sample_worker_fields:
  "max_retries (sample_worker n) = n" "result_queue (sample_worker n) = []"
  "calls (sample_worker n) = []" "worker_id (sample_worker n) = VInt 7"
  "closed_conns (sample_worker n) = []"
  by (simp_all add: sample_worker_def)

lemma sample_env_fields:
  "client (sample_env cl) = cl" "py_repr (sample_env cl) = sample_repr"
  "format_exc (sample_env cl) = (\<lambda>x. ''Traceback'')" "msgpack_dumps (sample_env cl) = sample_dumps"
  "time_time (sample_env cl) = real"
  by (simp_all add: sample_env_def)

lemma sample_found:
  "resolve_handler (sample_job ''delete_object'') = Inr (Some HandleDeleteObject)"
  "resolve_handler (sample_job ''get_object'') = Inr (Some HandleGetObject)"
  "resolve_handler ((sample_job t)(''noop'' \<mapsto> VBool True)) = Inr (Some HandleNoop)"
  "resolve_handler ((sample_job ''upload_object'')(''size'' \<mapsto> v)) = Inr (Some HandleUploadObject)"
  by (simp_all add: resolve_handler_def sample_job_def getattr_handler_def)

text \<open>A delete job whose every storage call raises \<open>x\<close>, an exception that ends the retry loop.\<close>

lemma sample_delete_raises:
  assumes "x \<noteq> CannotSendRequest" "x \<noteq> HTTPConnectionClosed" "\<forall>m. x \<noteq> SocketError m"
    "\<forall>s. x = ClientException s \<longrightarrow> s \<notin> set [404, 503]"
  shows "handle_delete_object (sample_env (\<lambda>cs c. CRaise x)) (sample_job ''delete_object'')
       (sample_worker n)
     = (Raises x, sample_job ''delete_object'',
        used sample_url (next_call DeleteObject
           [''url'' \<mapsto> APy sample_url, ''token'' \<mapsto> APy (VStr ''tok''),
            ''container'' \<mapsto> APy (VStr ''c''), ''name'' \<mapsto> APy (VStr ''o'')]
           sample_url (sample_worker n)) False (sample_worker n))"
proof -
  have "attempt (sample_env (\<lambda>cs c. CRaise x)) [404, 503] DeleteObject sample_url args 0
        (sample_worker n)
      = (Raise x, used sample_url (next_call DeleteObject args sample_url (sample_worker n)) False
           (sample_worker n))" for args
    using assms
    by (cases x) (simp_all add: attempt_ready [OF sample_ready] sample_env_fields)
  then show ?thesis
    by (simp add: handle_delete_object_def ignoring_http_responses_first [OF sample_keys])
qed

theorem handle_job_catches_witness:
  "fst (handle_job (sample_env (\<lambda>cs c. CRaise (ClientException 500))) (Suc 0)
          (sample_job ''delete_object'') (sample_worker 5)) = Returns ()
   \<and> map (\<lambda>r. (r ''exception'', r ''traceback''))
        (result_queue (snd (snd (handle_job (sample_env (\<lambda>cs c. CRaise (ClientException 500))) (Suc 0)
          (sample_job ''delete_object'') (sample_worker 5)))))
     = [(Some (VStr ''ClientException''), Some (VStr ''Traceback''))]"
proof -
  let ?e = "sample_env (\<lambda>cs c. CRaise (ClientException 500))"
  let ?w' = "used sample_url (next_call DeleteObject
           [''url'' \<mapsto> APy sample_url, ''token'' \<mapsto> APy (VStr ''tok''),
            ''container'' \<mapsto> APy (VStr ''c''), ''name'' \<mapsto> APy (VStr ''o'')]
           sample_url (sample_worker 5)) False (sample_worker 5)"
  have raised: "call_handler ?e (handle_job ?e 0) HandleDeleteObject
      (sample_job ''delete_object'') (sample_worker 5)
    = (Raises (ClientException 500), sample_job ''delete_object'', ?w')"
    by (simp add: call_handler_def sample_delete_raises)
  have caught: "is_Exception (ClientException 500)"
    by (simp add: is_Exception_def)
  have encodes: "msgpack_dumps ?e
        (result_record ?e (sample_job ''delete_object'')
           [''exception'' \<mapsto> VStr (py_repr ?e (ClientException 500)),
            ''traceback'' \<mapsto> VStr (format_exc ?e (ClientException 500))] ?w') = None"
    by (simp add: sample_env_fields sample_dumps_def result_record_def add_dicts_def
        sample_job_def)
  show ?thesis
    using handle_job_catches [OF sample_found(1) raised caught encodes]
    by (simp add: sample_worker_fields sample_env_fields sample_repr_def
        del: handle_job.simps)
qed

text \<open>
  Claim C1 as stated fails in two ways.  An exception that \<^verbatim>\<open>except Exception\<close> does not
  catch, raised by the storage client in a delete job, leaves \<^verbatim>\<open>handle_job\<close> and no record
  is put.  And for an upload job whose size is the float \<open>10 ^ 30\<close> and whose storage call is
  refused with status 500, the handler has written the integer size back into the job, the
  failure record cannot be encoded, and the exception of the encoder leaves \<^verbatim>\<open>handle_job\<close>
  with no record put.
\<close>

theorem handle_job_no_result_counterexample:
  "fst (handle_job (sample_env (\<lambda>cs c. CRaise GreenletExit)) (Suc 0)
          (sample_job ''delete_object'') (sample_worker 5)) = Raises GreenletExit
   \<and> result_queue (snd (snd (handle_job (sample_env (\<lambda>cs c. CRaise GreenletExit)) (Suc 0)
          (sample_job ''delete_object'') (sample_worker 5)))) = []
   \<and> fst (handle_job (sample_env (\<lambda>cs c. CRaise (ClientException 500))) (Suc 0)
          ((sample_job ''upload_object'')(''size'' \<mapsto> VFloat 1000000000000000000000000000000))
          (sample_worker 5)) = Raises (OverflowError ''Integer value out of range'')
   \<and> result_queue (snd (snd (handle_job (sample_env (\<lambda>cs c. CRaise (ClientException 500))) (Suc 0)
          ((sample_job ''upload_object'')(''size'' \<mapsto> VFloat 1000000000000000000000000000000))
          (sample_worker 5)))) = []"
proof -
  let ?k = "sample_env (\<lambda>cs c. CRaise GreenletExit)"
  have a: "handle_job ?k (Suc 0) (sample_job ''delete_object'') (sample_worker 5)
      = (Raises GreenletExit, sample_job ''delete_object'',
         used sample_url (next_call DeleteObject
           [''url'' \<mapsto> APy sample_url, ''token'' \<mapsto> APy (VStr ''tok''),
            ''container'' \<mapsto> APy (VStr ''c''), ''name'' \<mapsto> APy (VStr ''o'')]
           sample_url (sample_worker 5)) False (sample_worker 5))"
    by (simp add: sample_found call_handler_def sample_delete_raises try_handler_def
        is_Exception_def)
  let ?e = "sample_env (\<lambda>cs c. CRaise (ClientException 500))"
  let ?j = "(sample_job ''upload_object'')(''size'' \<mapsto> VFloat 1000000000000000000000000000000)"
  let ?j' = "(sample_job ''upload_object'')(''size'' \<mapsto> VInt 1000000000000000000000000000000)"
  have keys: "?j' ''storage_url'' = Some sample_url" "?j' ''token'' = Some (VStr ''tok'')"
    "?j' ''container'' = Some (VStr ''c'')" "?j' ''name'' = Some (VStr ''o'')"
    by (simp_all add: sample_job_def)
  have att: "attempt ?e [503] PutObject sample_url args 0 (sample_worker 5)
      = (Raise (ClientException 500),
         used sample_url (next_call PutObject args sample_url (sample_worker 5)) False
           (sample_worker 5))" for args
    by (simp add: attempt_ready [OF sample_ready] sample_env_fields)
  have up: "\<exists>w'. handle_upload_object ?e ?j None (sample_worker 5)
      = (Raises (ClientException 500), ?j', w') \<and> result_queue w' = []"
    by (simp add: handle_upload_object_def py_int_def Let_def
        ignoring_http_responses_first [OF keys] att used_fields sample_worker_fields)
  then obtain w' where up': "handle_upload_object ?e ?j None (sample_worker 5)
      = (Raises (ClientException 500), ?j', w')" and rq: "result_queue w' = []"
    by blast
  have big: "sample_dumps (result_record ?e ?j'
      [''exception'' \<mapsto> VStr (py_repr ?e (ClientException 500)),
       ''traceback'' \<mapsto> VStr (format_exc ?e (ClientException 500))] w')
    = Some (OverflowError ''Integer value out of range'')"
    by (simp add: sample_dumps_def result_record_def add_dicts_def map_add_def)
  have b: "handle_job ?e (Suc 0) ?j (sample_worker 5)
      = (Raises (OverflowError ''Integer value out of range''), ?j', w')"
    using up' big
    by (simp add: sample_found call_handler_def try_handler_def is_Exception_def put_results_eq
        sample_env_fields)
  show ?thesis
    unfolding a b using rq by (simp add: used_fields sample_worker_fields)
qed

text \<open>
  Claim C5.  A job whose \<^verbatim>\<open>noop\<close> flag is true is handled by \<^verbatim>\<open>handle_noop\<close> whatever
  its type, even with no type at all.  Otherwise the handler is the method named after the
  job's type: \<^verbatim>\<open>handle_job\<close> runs, inside its \<^verbatim>\<open>try\<close> statement, the no-op, upload,
  update, delete or get handler on the job (the upload handler with its default letter),
  or itself for the type \<^verbatim>\<open>job\<close>; when the handler returns, \<^verbatim>\<open>handle_job\<close> returns
  with the job and the worker as the handler left them.  For any other type it raises the
  unknown-job-type error, and for a job with no type a \<^verbatim>\<open>KeyError\<close>; in both cases it
  puts no record and the worker's state is unchanged.
\<close>

theorem handle_job_dispatch:
  "(truthy (case job_data ''noop'' of None \<Rightarrow> VBool False | Some v \<Rightarrow> v) \<longrightarrow>
      handle_job e (Suc depth) job_data w = try_handler e (handle_noop e job_data w))
   \<and> (\<not> truthy (case job_data ''noop'' of None \<Rightarrow> VBool False | Some v \<Rightarrow> v) \<longrightarrow>
        (job_data ''type'' = Some (VStr ''noop'') \<longrightarrow>
           handle_job e (Suc depth) job_data w = try_handler e (handle_noop e job_data w))
      \<and> (job_data ''type'' = Some (VStr ''upload_object'') \<longrightarrow>
           handle_job e (Suc depth) job_data w
             = try_handler e (handle_upload_object e job_data None w))
      \<and> (job_data ''type'' = Some (VStr ''update_object'') \<longrightarrow>
           handle_job e (Suc depth) job_data w = try_handler e (handle_update_object e job_data w))
      \<and> (job_data ''type'' = Some (VStr ''delete_object'') \<longrightarrow>
           handle_job e (Suc depth) job_data w = try_handler e (handle_delete_object e job_data w))
      \<and> (job_data ''type'' = Some (VStr ''get_object'') \<longrightarrow>
           handle_job e (Suc depth) job_data w = try_handler e (handle_get_object e job_data w))
      \<and> (job_data ''type'' = Some (VStr ''job'') \<longrightarrow>
           handle_job e (Suc depth) job_data w = try_handler e (handle_job e depth job_data w))
      \<and> (\<forall>t. job_data ''type'' = Some t
             \<and> t \<noteq> VStr ''noop'' \<and> t \<noteq> VStr ''upload_object'' \<and> t \<noteq> VStr ''update_object''
             \<and> t \<noteq> VStr ''delete_object'' \<and> t \<noteq> VStr ''get_object'' \<and> t \<noteq> VStr ''job'' \<longrightarrow>
           handle_job e (Suc depth) job_data w = (Raises (UnknownJobType t), job_data, w))
      \<and> (job_data ''type'' = None \<longrightarrow>
           handle_job e (Suc depth) job_data w = (Raises (KeyError (VStr ''type'')), job_data, w)))
   \<and> (resolve_handler job_data = Inr (Some h)
        \<and> call_handler e (handle_job e depth) h job_data w = (Returns u, job_data', w') \<longrightarrow>
        handle_job e (Suc depth) job_data w = (Returns u, job_data', w'))"
proof (intro conjI impI allI)
  assume "resolve_handler job_data = Inr (Some h)
        \<and> call_handler e (handle_job e depth) h job_data w = (Returns u, job_data', w')"
  then show "handle_job e (Suc depth) job_data w = (Returns u, job_data', w')"
    by (simp add: try_handler_def)
next
  fix t
  assume flag: "\<not> truthy (case job_data ''noop'' of None \<Rightarrow> VBool False | Some v \<Rightarrow> v)"
    and other: "job_data ''type'' = Some t
             \<and> t \<noteq> VStr ''noop'' \<and> t \<noteq> VStr ''upload_object'' \<and> t \<noteq> VStr ''update_object''
             \<and> t \<noteq> VStr ''delete_object'' \<and> t \<noteq> VStr ''get_object'' \<and> t \<noteq> VStr ''job''"
  have "resolve_handler job_data = Inr None"
  proof (cases t)
    case (VStr s)
    then have "getattr_handler (''handle_'' @ s) = None"
      using other by (simp add: getattr_handler_def)
    then show ?thesis using flag other VStr by (simp add: resolve_handler_def)
  qed (use flag other in \<open>simp_all add: resolve_handler_def\<close>)
  then show "handle_job e (Suc depth) job_data w = (Raises (UnknownJobType t), job_data, w)"
    using other by simp
qed (simp_all add: resolve_handler_def getattr_handler_def call_handler_def)

theorem handle_job_dispatch_witness:
  "handle_job (sample_env healthy) (Suc 0) ((sample_job ''frobnicate'')(''noop'' \<mapsto> VBool True))
       (sample_worker 0)
     = try_handler (sample_env healthy)
         (handle_noop (sample_env healthy) ((sample_job ''frobnicate'')(''noop'' \<mapsto> VBool True))
            (sample_worker 0))
   \<and> handle_job (sample_env healthy) (Suc 0) (sample_job ''get_object'') (sample_worker 0)
     = try_handler (sample_env healthy)
         (handle_get_object (sample_env healthy) (sample_job ''get_object'') (sample_worker 0))
   \<and> handle_job (sample_env healthy) (Suc 0) (sample_job ''frobnicate'') (sample_worker 0)
       = (Raises (UnknownJobType (VStr ''frobnicate'')), sample_job ''frobnicate'', sample_worker 0)
   \<and> handle_job (sample_env healthy) (Suc 0) ((sample_job ''frobnicate'')(''noop'' \<mapsto> VBool True))
       (sample_worker 0)
     = (Returns (), (sample_job ''frobnicate'')(''noop'' \<mapsto> VBool True),
        (sample_worker 0)\<lparr>result_queue :=
           [result_record (sample_env healthy)
              ((sample_job ''frobnicate'')(''noop'' \<mapsto> VBool True))
              [''first_byte_latency'' \<mapsto> VFloat 0, ''last_byte_latency'' \<mapsto> VFloat 0,
               ''trans_id'' \<mapsto> VNone] (sample_worker 0)]\<rparr>)"
proof -
  let ?e = "sample_env healthy"
  let ?n = "(sample_job ''frobnicate'')(''noop'' \<mapsto> VBool True)"
  let ?v = "(sample_worker 0)\<lparr>result_queue :=
           [result_record ?e ?n
              [''first_byte_latency'' \<mapsto> VFloat 0, ''last_byte_latency'' \<mapsto> VFloat 0,
               ''trans_id'' \<mapsto> VNone] (sample_worker 0)]\<rparr>"
  have res: "resolve_handler ?n = Inr (Some HandleNoop)"
    by (simp add: resolve_handler_def)
  have enc: "msgpack_dumps ?e (result_record ?e ?n
              [''first_byte_latency'' \<mapsto> VFloat 0, ''last_byte_latency'' \<mapsto> VFloat 0,
               ''trans_id'' \<mapsto> VNone] (sample_worker 0)) = None"
    by (simp add: sample_env_def sample_dumps_def result_record_def add_dicts_def sample_job_def
        map_add_def)
  have ret: "call_handler ?e (handle_job ?e 0) HandleNoop ?n (sample_worker 0)
      = (Returns (), ?n, ?v)"
    using enc
    by (simp add: call_handler_def handle_noop_def put_results_def result_record_def Let_def
        sample_worker_def)
  show ?thesis
    using handle_job_dispatch [of ?n ?e 0 "sample_worker 0"]
      handle_job_dispatch [of "sample_job ''get_object''" ?e 0 "sample_worker 0"]
      handle_job_dispatch [of "sample_job ''frobnicate''" ?e 0 "sample_worker 0"]
      handle_job_dispatch [where job_data = ?n and h = HandleNoop and e = ?e and depth = 0
          and w = "sample_worker 0" and u = "()" and job_data' = ?n and w' = ?v,
        THEN conjunct2, THEN conjunct2, THEN mp, OF conjI [OF res ret]]
    by (simp add: sample_job_def del: handle_job.simps)
qed

section \<open>Sample runs\<close>

lemma sample_encodes:
  assumes "kwargs ''size'' = None"
  shows "sample_dumps (result_record e (sample_job t) kwargs w) = None"
    and "sample_dumps (result_record e ((sample_job t)(''noop'' \<mapsto> v)) kwargs w) = None"
  using assms
  by (simp_all add: sample_dumps_def result_record_def add_dicts_def sample_job_def map_add_def)

lemma sample_put_results:
  assumes "kwargs ''size'' = None"
  shows "put_results (sample_env cl) [sample_job t] kwargs w
     = (Returns (), w\<lparr>result_queue := result_queue w @
          [result_record (sample_env cl) (sample_job t) kwargs w]\<rparr>)"
    and "put_results (sample_env cl) [(sample_job t)(''noop'' \<mapsto> v)] kwargs w
     = (Returns (), w\<lparr>result_queue := result_queue w @
          [result_record (sample_env cl) ((sample_job t)(''noop'' \<mapsto> v)) kwargs w]\<rparr>)"
  using assms by (simp_all add: put_results_eq sample_env_fields sample_encodes)

lemma sample_delete_broken:
  "handle_delete_object (sample_env breaks_once) (sample_job ''delete_object'') (sample_worker 0)
   = (Raises (NoFnResults DeleteObject 0), sample_job ''delete_object'',
      used sample_url (next_call DeleteObject
           [''url'' \<mapsto> APy sample_url, ''token'' \<mapsto> APy (VStr ''tok''),
            ''container'' \<mapsto> APy (VStr ''c''), ''name'' \<mapsto> APy (VStr ''o'')]
           sample_url (sample_worker 0)) True (sample_worker 0))"
proof -
  have cl: "client (sample_env breaks_once) [] c = CRaise CannotSendRequest"
    for c by (simp add: sample_env_def breaks_once_def)
  have att: "attempt (sample_env breaks_once) [404, 503] DeleteObject sample_url args 0 (sample_worker 0)
      = (Raise (NoFnResults DeleteObject 0),
         used sample_url (next_call DeleteObject args sample_url (sample_worker 0)) True (sample_worker 0))"
    for args by (simp add: attempt_ready [OF sample_ready] cl sample_worker_fields)
  show ?thesis
    by (simp add: handle_delete_object_def ignoring_http_responses_first [OF sample_keys] att)
qed

lemma sample_delete_healthy:
  "handle_delete_object (sample_env healthy) (sample_job ''delete_object'') (sample_worker 0)
   = (Returns (), sample_job ''delete_object'',
      snd (put_results_from_response (sample_env healthy) (sample_job ''delete_object'')
        [(''x-trans-id'', VStr ''tx1'')]
        (used sample_url (next_call DeleteObject
           [''url'' \<mapsto> APy sample_url, ''token'' \<mapsto> APy (VStr ''tok''),
            ''container'' \<mapsto> APy (VStr ''c''), ''name'' \<mapsto> APy (VStr ''o'')]
           sample_url (sample_worker 0)) False (sample_worker 0))))"
  "fst (put_results_from_response (sample_env healthy) (sample_job ''delete_object'')
        [(''x-trans-id'', VStr ''tx1'')] w) = Returns ()"
proof -
  have cl: "client (sample_env healthy) cs c = CReturn (RHeaders [(''x-trans-id'', VStr ''tx1'')])"
    for cs c by (simp add: sample_env_def healthy_def)
  have att: "attempt (sample_env healthy) [404, 503] DeleteObject sample_url args 0 (sample_worker 0)
      = (Break (RHeaders [(''x-trans-id'', VStr ''tx1'')]),
         used sample_url (next_call DeleteObject args sample_url (sample_worker 0)) False (sample_worker 0))"
    for args by (simp add: attempt_ready [OF sample_ready] cl)
  show ok: "fst (put_results_from_response (sample_env healthy) (sample_job ''delete_object'')
        [(''x-trans-id'', VStr ''tx1'')] w) = Returns ()" for w
    by (simp add: put_results_from_response_def sample_put_results)
  show "handle_delete_object (sample_env healthy) (sample_job ''delete_object'') (sample_worker 0)
   = (Returns (), sample_job ''delete_object'',
      snd (put_results_from_response (sample_env healthy) (sample_job ''delete_object'')
        [(''x-trans-id'', VStr ''tx1'')]
        (used sample_url (next_call DeleteObject
           [''url'' \<mapsto> APy sample_url, ''token'' \<mapsto> APy (VStr ''tok''),
            ''container'' \<mapsto> APy (VStr ''c''), ''name'' \<mapsto> APy (VStr ''o'')]
           sample_url (sample_worker 0)) False (sample_worker 0))))"
    by (simp add: handle_delete_object_def ignoring_http_responses_first [OF sample_keys] att
        case_prod_beta ok)
qed

text \<open>
  Claim C6 as stated fails.  Take two storage clients that answer every call with the same
  headers, except that with the second the first call hits a broken connection.  With
  \<^verbatim>\<open>max_retries = 1\<close> the broken connection is counted: \<^verbatim>\<open>tries\<close> goes from 0 to 1.  With
  \<^verbatim>\<open>max_retries = 0\<close> the record reported for the same delete job is a failure (the
  exception "No fn_results") in the one case and a success in the other.
\<close>

theorem broken_connection_visible_counterexample:
  "fst (attempt (sample_env breaks_once) [404, 503] DeleteObject sample_url Map.empty 0
          (sample_worker 1)) = Continue 1
   \<and> map (\<lambda>r. (r ''exception'', r ''trans_id''))
        (result_queue (snd (snd (handle_job (sample_env breaks_once) (Suc 0)
           (sample_job ''delete_object'') (sample_worker 0)))))
       = [(Some (VStr ''Exception(No fn_results)''), None)]
   \<and> map (\<lambda>r. (r ''exception'', r ''trans_id''))
        (result_queue (snd (snd (handle_job (sample_env healthy) (Suc 0)
           (sample_job ''delete_object'') (sample_worker 0)))))
       = [(None, Some (VStr ''tx1''))]"
proof (intro conjI)
  have cl: "client (sample_env breaks_once) [] c = CRaise CannotSendRequest"
    for c by (simp add: sample_env_def breaks_once_def)
  show "fst (attempt (sample_env breaks_once) [404, 503] DeleteObject sample_url Map.empty 0
          (sample_worker 1)) = Continue 1"
    by (simp add: attempt_ready [OF sample_ready] cl sample_worker_fields)
next
  have r: "call_handler (sample_env breaks_once) (handle_job (sample_env breaks_once) 0)
          HandleDeleteObject (sample_job ''delete_object'') (sample_worker 0)
        = (Raises (NoFnResults DeleteObject 0), sample_job ''delete_object'',
           used sample_url (next_call DeleteObject
             [''url'' \<mapsto> APy sample_url, ''token'' \<mapsto> APy (VStr ''tok''),
              ''container'' \<mapsto> APy (VStr ''c''), ''name'' \<mapsto> APy (VStr ''o'')]
             sample_url (sample_worker 0)) True (sample_worker 0))"
    by (simp add: call_handler_def sample_delete_broken)
  have caught: "is_Exception (NoFnResults DeleteObject 0)"
    by (simp add: is_Exception_def)
  have none: "sample_job ''delete_object'' ''trans_id'' = None"
    by (simp add: sample_job_def)
  have enc: "msgpack_dumps (sample_env breaks_once)
      (result_record (sample_env breaks_once) (sample_job ''delete_object'')
         [''exception'' \<mapsto> VStr (py_repr (sample_env breaks_once) (NoFnResults DeleteObject 0)),
          ''traceback'' \<mapsto> VStr (format_exc (sample_env breaks_once) (NoFnResults DeleteObject 0))]
         (used sample_url (next_call DeleteObject
             [''url'' \<mapsto> APy sample_url, ''token'' \<mapsto> APy (VStr ''tok''),
              ''container'' \<mapsto> APy (VStr ''c''), ''name'' \<mapsto> APy (VStr ''o'')]
             sample_url (sample_worker 0)) True (sample_worker 0))) = None"
    by (simp add: sample_env_fields sample_encodes)
  show "map (\<lambda>r. (r ''exception'', r ''trans_id''))
        (result_queue (snd (snd (handle_job (sample_env breaks_once) (Suc 0)
           (sample_job ''delete_object'') (sample_worker 0)))))
       = [(Some (VStr ''Exception(No fn_results)''), None)]"
    unfolding handle_job_failure_result [OF sample_found(1) r caught enc]
    using none
    by (simp add: result_record_def add_dicts_def sample_env_fields sample_repr_def
        sample_worker_fields map_add_def)
next
  have none: "sample_job ''delete_object'' ''exception'' = None"
    by (simp add: sample_job_def)
  show "map (\<lambda>r. (r ''exception'', r ''trans_id''))
        (result_queue (snd (snd (handle_job (sample_env healthy) (Suc 0)
           (sample_job ''delete_object'') (sample_worker 0)))))
       = [(None, Some (VStr ''tx1''))]"
    using none
    by (simp add: sample_found call_handler_def sample_delete_healthy(1) try_handler_def
        put_results_from_response_def sample_put_results result_record_def add_dicts_def
        header_get_def map_add_def used_fields sample_worker_fields)
qed

section \<open>Records put by the handlers\<close>

lemma put_results_from_response_eq:
  "put_results_from_response e object_info resp_headers w =
     (case msgpack_dumps e
             (result_record e object_info
                [''first_byte_latency'' \<mapsto> header_get resp_headers ''x-swiftstack-first-byte-latency'',
                 ''last_byte_latency'' \<mapsto> header_get resp_headers ''x-swiftstack-last-byte-latency'',
                 ''trans_id'' \<mapsto> header_get resp_headers ''x-trans-id''] w) of
        Some x \<Rightarrow> (Raises x, w)
      | None \<Rightarrow>
          (Returns (),
           w\<lparr>result_queue := result_queue w @
              [result_record e object_info
                 [''first_byte_latency'' \<mapsto> header_get resp_headers ''x-swiftstack-first-byte-latency'',
                  ''last_byte_latency'' \<mapsto> header_get resp_headers ''x-swiftstack-last-byte-latency'',
                  ''trans_id'' \<mapsto> header_get resp_headers ''x-trans-id''] w]\<rparr>))"
  by (simp add: put_results_from_response_def put_results_eq)

lemma put_results_from_response_returns:
  "put_results_from_response e object_info h w = (Returns u, w') \<Longrightarrow> u = ()"
  by simp

lemma handle_upload_object_returns:
  assumes "handle_upload_object e job_data l w = (Returns u, job_data', w')"
  shows "\<exists>hd w1 cs c. put_results_from_response e job_data' hd w1 = (Returns (), w')
      \<and> result_queue w1 = result_queue w \<and> calls w1 = cs @ [c]
      \<and> client e cs c = CReturn (RHeaders hd)"
  using assms
  by (fastforce simp: handle_upload_object_def Let_def
      split: option.splits sum.splits prod.splits outcome.splits fn_result.splits
      dest: ignoring_http_responses_frame ignoring_http_responses_returns)

lemma handle_delete_object_returns:
  assumes "handle_delete_object e job_data w = (Returns u, job_data', w')"
  shows "\<exists>hd w1 cs c. put_results_from_response e job_data' hd w1 = (Returns (), w')
      \<and> result_queue w1 = result_queue w \<and> calls w1 = cs @ [c]
      \<and> client e cs c = CReturn (RHeaders hd)"
  using assms
  by (fastforce simp: handle_delete_object_def
      split: prod.splits outcome.splits fn_result.splits
      dest: ignoring_http_responses_frame ignoring_http_responses_returns)

lemma handle_get_object_returns:
  assumes "handle_get_object e job_data w = (Returns u, job_data', w')"
  shows "\<exists>hd w1 cs c b. put_results_from_response e job_data' hd w1 = (Returns (), w')
      \<and> result_queue w1 = result_queue w \<and> calls w1 = cs @ [c]
      \<and> client e cs c = CReturn (RPair hd b)"
  using assms
  by (fastforce simp: handle_get_object_def
      split: prod.splits outcome.splits fn_result.splits if_splits
      dest: ignoring_http_responses_frame ignoring_http_responses_returns)

text \<open>
  Claim C7, as amended.  The record that \<^verbatim>\<open>_put_results_from_response\<close> builds carries
  \<^verbatim>\<open>first_byte_latency\<close>, \<^verbatim>\<open>last_byte_latency\<close> and \<^verbatim>\<open>trans_id\<close>, each the value of its
  response header when the header is present and \<^verbatim>\<open>None\<close> otherwise; it is put on the queue
  when it can be encoded, and otherwise the encoder's exception is raised and nothing is
  put.  Every record an upload, update, delete or get handler puts is built in that way,
  from the headers of the response that ended the retry loop, and is put when the handler
  succeeds.  The no-op handler's record carries 0.0, 0.0 and \<^verbatim>\<open>None\<close>.  A failure record
  is put by \<^verbatim>\<open>handle_job\<close>, when the exception derives from \<^verbatim>\<open>Exception\<close> and the record
  can be encoded: it carries \<^verbatim>\<open>exception\<close> and \<^verbatim>\<open>traceback\<close>, and under the three
  latency and transaction keys only what the job itself has under them.
\<close>

theorem result_enrichment:
  "(let r = result_record e object_info
              [''first_byte_latency'' \<mapsto> header_get resp_headers ''x-swiftstack-first-byte-latency'',
               ''last_byte_latency'' \<mapsto> header_get resp_headers ''x-swiftstack-last-byte-latency'',
               ''trans_id'' \<mapsto> header_get resp_headers ''x-trans-id''] w in
      put_results_from_response e object_info resp_headers w
        = (case msgpack_dumps e r of
             Some x \<Rightarrow> (Raises x, w)
           | None \<Rightarrow> (Returns (), w\<lparr>result_queue := result_queue w @ [r]\<rparr>))
      \<and> r ''first_byte_latency''
          = Some (case map_of resp_headers ''x-swiftstack-first-byte-latency'' of
                    None \<Rightarrow> VNone | Some v \<Rightarrow> v)
      \<and> r ''last_byte_latency''
          = Some (case map_of resp_headers ''x-swiftstack-last-byte-latency'' of
                    None \<Rightarrow> VNone | Some v \<Rightarrow> v)
      \<and> r ''trans_id''
          = Some (case map_of resp_headers ''x-trans-id'' of None \<Rightarrow> VNone | Some v \<Rightarrow> v))
   \<and> (h \<noteq> HandleJob \<and> h \<noteq> HandleNoop
        \<and> call_handler e self_handle_job h job_data w = (Returns u, job_data', w') \<longrightarrow>
        (\<exists>hd w1 cs c. put_results_from_response e job_data' hd w1 = (Returns (), w')
            \<and> result_queue w1 = result_queue w \<and> calls w1 = cs @ [c]
            \<and> (client e cs c = CReturn (RHeaders hd) \<or> (\<exists>b. client e cs c = CReturn (RPair hd b)))))
   \<and> (let r = result_record e job_data
                  [''first_byte_latency'' \<mapsto> VFloat 0, ''last_byte_latency'' \<mapsto> VFloat 0,
                   ''trans_id'' \<mapsto> VNone] w in
        handle_noop e job_data w
          = (case msgpack_dumps e r of
               Some x \<Rightarrow> (Raises x, job_data, w)
             | None \<Rightarrow> (Returns (), job_data, w\<lparr>result_queue := result_queue w @ [r]\<rparr>))
        \<and> r ''first_byte_latency'' = Some (VFloat 0) \<and> r ''last_byte_latency'' = Some (VFloat 0)
        \<and> r ''trans_id'' = Some VNone)
   \<and> (resolve_handler job_data = Inr (Some h)
        \<and> call_handler e (handle_job e depth) h job_data w = (Raises x, job_data', w')
        \<and> is_Exception x
        \<and> msgpack_dumps e
             (result_record e job_data'
                [''exception'' \<mapsto> VStr (py_repr e x), ''traceback'' \<mapsto> VStr (format_exc e x)] w')
           = None \<longrightarrow>
        (let r = result_record e job_data'
                   [''exception'' \<mapsto> VStr (py_repr e x), ''traceback'' \<mapsto> VStr (format_exc e x)] w'
         in
           result_queue (snd (snd (handle_job e (Suc depth) job_data w))) = result_queue w @ [r]
           \<and> r ''exception'' = Some (VStr (py_repr e x))
           \<and> r ''traceback'' = Some (VStr (format_exc e x))
           \<and> r ''first_byte_latency'' = job_data' ''first_byte_latency''
           \<and> r ''last_byte_latency'' = job_data' ''last_byte_latency''
           \<and> r ''trans_id'' = job_data' ''trans_id''))"
proof (intro conjI impI)
  show "let r = result_record e object_info
              [''first_byte_latency'' \<mapsto> header_get resp_headers ''x-swiftstack-first-byte-latency'',
               ''last_byte_latency'' \<mapsto> header_get resp_headers ''x-swiftstack-last-byte-latency'',
               ''trans_id'' \<mapsto> header_get resp_headers ''x-trans-id''] w in
      put_results_from_response e object_info resp_headers w
        = (case msgpack_dumps e r of
             Some x \<Rightarrow> (Raises x, w)
           | None \<Rightarrow> (Returns (), w\<lparr>result_queue := result_queue w @ [r]\<rparr>))
      \<and> r ''first_byte_latency''
          = Some (case map_of resp_headers ''x-swiftstack-first-byte-latency'' of
                    None \<Rightarrow> VNone | Some v \<Rightarrow> v)
      \<and> r ''last_byte_latency''
          = Some (case map_of resp_headers ''x-swiftstack-last-byte-latency'' of
                    None \<Rightarrow> VNone | Some v \<Rightarrow> v)
      \<and> r ''trans_id''
          = Some (case map_of resp_headers ''x-trans-id'' of None \<Rightarrow> VNone | Some v \<Rightarrow> v)"
    unfolding Let_def
    by (intro conjI, rule put_results_from_response_eq)
       (simp_all add: result_record_def add_dicts_def header_get_def)
next
  assume a: "h \<noteq> HandleJob \<and> h \<noteq> HandleNoop
        \<and> call_handler e self_handle_job h job_data w = (Returns u, job_data', w')"
  show "\<exists>hd w1 cs c. put_results_from_response e job_data' hd w1 = (Returns (), w')
            \<and> result_queue w1 = result_queue w \<and> calls w1 = cs @ [c]
            \<and> (client e cs c = CReturn (RHeaders hd) \<or> (\<exists>b. client e cs c = CReturn (RPair hd b)))"
  proof (cases h)
    case HandleUploadObject
    with a have "handle_upload_object e job_data None w = (Returns u, job_data', w')"
      by (simp add: call_handler_def)
    from handle_upload_object_returns [OF this] show ?thesis by blast
  next
    case HandleUpdateObject
    with a have "handle_upload_object e job_data (Some ''B'') w = (Returns u, job_data', w')"
      by (simp add: call_handler_def handle_update_object_def)
    from handle_upload_object_returns [OF this] show ?thesis by blast
  next
    case HandleDeleteObject
    with a have "handle_delete_object e job_data w = (Returns u, job_data', w')"
      by (simp add: call_handler_def)
    from handle_delete_object_returns [OF this] show ?thesis by blast
  next
    case HandleGetObject
    with a have "handle_get_object e job_data w = (Returns u, job_data', w')"
      by (simp add: call_handler_def)
    from handle_get_object_returns [OF this] show ?thesis by blast
  qed (use a in simp_all)
next
  show "let r = result_record e job_data
                  [''first_byte_latency'' \<mapsto> VFloat 0, ''last_byte_latency'' \<mapsto> VFloat 0,
                   ''trans_id'' \<mapsto> VNone] w in
        handle_noop e job_data w
          = (case msgpack_dumps e r of
               Some x \<Rightarrow> (Raises x, job_data, w)
             | None \<Rightarrow> (Returns (), job_data, w\<lparr>result_queue := result_queue w @ [r]\<rparr>))
        \<and> r ''first_byte_latency'' = Some (VFloat 0) \<and> r ''last_byte_latency'' = Some (VFloat 0)
        \<and> r ''trans_id'' = Some VNone"
    by (simp add: handle_noop_def put_results_eq result_record_def add_dicts_def Let_def
        split: option.splits)
next
  assume a: "resolve_handler job_data = Inr (Some h)
        \<and> call_handler e (handle_job e depth) h job_data w = (Raises x, job_data', w')
        \<and> is_Exception x
        \<and> msgpack_dumps e
             (result_record e job_data'
                [''exception'' \<mapsto> VStr (py_repr e x), ''traceback'' \<mapsto> VStr (format_exc e x)] w')
           = None"
  then have found: "resolve_handler job_data = Inr (Some h)"
    and raised: "call_handler e (handle_job e depth) h job_data w = (Raises x, job_data', w')"
    and caught: "is_Exception x"
    and encodes: "msgpack_dumps e
             (result_record e job_data'
                [''exception'' \<mapsto> VStr (py_repr e x), ''traceback'' \<mapsto> VStr (format_exc e x)] w')
           = None"
    by simp_all
  show "let r = result_record e job_data'
                   [''exception'' \<mapsto> VStr (py_repr e x), ''traceback'' \<mapsto> VStr (format_exc e x)] w'
         in
           result_queue (snd (snd (handle_job e (Suc depth) job_data w))) = result_queue w @ [r]
           \<and> r ''exception'' = Some (VStr (py_repr e x))
           \<and> r ''traceback'' = Some (VStr (format_exc e x))
           \<and> r ''first_byte_latency'' = job_data' ''first_byte_latency''
           \<and> r ''last_byte_latency'' = job_data' ''last_byte_latency''
           \<and> r ''trans_id'' = job_data' ''trans_id''"
    unfolding handle_job_failure_result [OF found raised caught encodes]
    by (simp add: result_record_def add_dicts_def Let_def map_add_def)
qed

lemma sample_get_refused:
  "\<exists>w'. call_handler (sample_env (\<lambda>cs c. CRaise (ClientException 500))) self_handle_job
     HandleGetObject (sample_job ''get_object'') (sample_worker 5)
   = (Raises (ClientException 500), sample_job ''get_object'', w')"
proof -
  have "fst (ignoring_http_responses (sample_env (\<lambda>cs c. CRaise (ClientException 500))) [404, 503]
      GetObject (sample_job ''get_object'')
      [''resp_chunk_size'' \<mapsto> APy (VInt (2 ^ 16)), ''toss_body'' \<mapsto> APy (VBool True)]
      (sample_worker 5)) = Raises (ClientException 500)"
    by (subst ignoring_http_responses_client_error [OF sample_keys sample_ready])
       (simp_all add: sample_env_def)
  then show ?thesis
    by (cases "ignoring_http_responses (sample_env (\<lambda>cs c. CRaise (ClientException 500))) [404, 503]
      GetObject (sample_job ''get_object'')
      [''resp_chunk_size'' \<mapsto> APy (VInt (2 ^ 16)), ''toss_body'' \<mapsto> APy (VBool True)]
      (sample_worker 5)")
      (simp add: call_handler_def handle_get_object_def)
qed

text \<open>
  Claim C7 as stated fails on failure records and on the no-op record.  A get job whose
  storage call is refused with status 500 yields a record with the exception and none of
  the three fields; a no-op job yields latencies 0.0, not \<^verbatim>\<open>None\<close>, although there is no
  response to take them from.
\<close>

theorem failure_result_fields_counterexample:
  "map (\<lambda>r. (r ''first_byte_latency'', r ''last_byte_latency'', r ''trans_id'', r ''exception''))
     (result_queue (snd (snd (handle_job (sample_env (\<lambda>cs c. CRaise (ClientException 500))) (Suc 0)
        (sample_job ''get_object'') (sample_worker 5)))))
     = [(None, None, None, Some (VStr ''ClientException''))]
   \<and> map (\<lambda>r. (r ''first_byte_latency'', r ''last_byte_latency'', r ''trans_id'', r ''exception''))
     (result_queue (snd (snd (handle_job (sample_env healthy) (Suc 0)
        ((sample_job ''get_object'')(''noop'' \<mapsto> VBool True)) (sample_worker 5)))))
     = [(Some (VFloat 0), Some (VFloat 0), Some VNone, None)]"
proof (intro conjI)
  let ?e = "sample_env (\<lambda>cs c. CRaise (ClientException 500))"
  from sample_get_refused obtain w' where
    r: "call_handler ?e (handle_job ?e 0)
          HandleGetObject (sample_job ''get_object'') (sample_worker 5)
        = (Raises (ClientException 500), sample_job ''get_object'', w')"
    by blast
  have caught: "is_Exception (ClientException 500)"
    by (simp add: is_Exception_def)
  have enc: "msgpack_dumps ?e
      (result_record ?e (sample_job ''get_object'')
         [''exception'' \<mapsto> VStr (py_repr ?e (ClientException 500)),
          ''traceback'' \<mapsto> VStr (format_exc ?e (ClientException 500))] w') = None"
    by (simp add: sample_env_fields sample_encodes)
  have "sample_job ''get_object'' ''first_byte_latency'' = None"
    "sample_job ''get_object'' ''last_byte_latency'' = None"
    "sample_job ''get_object'' ''trans_id'' = None"
    by (simp_all add: sample_job_def)
  then show "map (\<lambda>r. (r ''first_byte_latency'', r ''last_byte_latency'', r ''trans_id'', r ''exception''))
     (result_queue (snd (snd (handle_job ?e (Suc 0)
        (sample_job ''get_object'') (sample_worker 5)))))
     = [(None, None, None, Some (VStr ''ClientException''))]"
    unfolding handle_job_failure_result [OF sample_found(2) r caught enc]
    by (simp add: result_record_def add_dicts_def sample_env_fields sample_repr_def
        sample_worker_fields map_add_def)
next
  have "((sample_job ''get_object'')(''noop'' \<mapsto> VBool True)) ''exception'' = None"
    by (simp add: sample_job_def)
  then show "map (\<lambda>r. (r ''first_byte_latency'', r ''last_byte_latency'', r ''trans_id'', r ''exception''))
     (result_queue (snd (snd (handle_job (sample_env healthy) (Suc 0)
        ((sample_job ''get_object'')(''noop'' \<mapsto> VBool True)) (sample_worker 5)))))
     = [(Some (VFloat 0), Some (VFloat 0), Some VNone, None)]"
    by (simp add: sample_found(3) call_handler_def handle_noop_def sample_put_results
        try_handler_def result_record_def add_dicts_def sample_worker_fields map_add_def)
qed

theorem result_enrichment_witness:
  "result_queue (snd (put_results_from_response (sample_env healthy) (sample_job ''get_object'')
       [(''x-trans-id'', VStr ''tx1'')] (sample_worker 0)))
     = [result_record (sample_env healthy) (sample_job ''get_object'')
          [''first_byte_latency'' \<mapsto> VNone, ''last_byte_latency'' \<mapsto> VNone,
           ''trans_id'' \<mapsto> VStr ''tx1''] (sample_worker 0)]
   \<and> (\<exists>hd w1 cs c.
        put_results_from_response (sample_env healthy) (sample_job ''delete_object'') hd w1
          = (Returns (), snd (snd (handle_delete_object (sample_env healthy)
               (sample_job ''delete_object'') (sample_worker 0))))
        \<and> result_queue w1 = [] \<and> calls w1 = cs @ [c]
        \<and> (healthy cs c = CReturn (RHeaders hd) \<or> (\<exists>b. healthy cs c = CReturn (RPair hd b))))
   \<and> map (\<lambda>r. (r ''first_byte_latency'', r ''exception''))
        (result_queue (snd (snd (handle_job (sample_env (\<lambda>cs c. CRaise (ClientException 500)))
        (Suc 0) (sample_job ''delete_object'') (sample_worker 5)))))
      = [(None, Some (VStr ''ClientException''))]"
proof -
  let ?h = "sample_env healthy"
  let ?e = "sample_env (\<lambda>cs c. CRaise (ClientException 500))"
  let ?w' = "used sample_url (next_call DeleteObject
           [''url'' \<mapsto> APy sample_url, ''token'' \<mapsto> APy (VStr ''tok''),
            ''container'' \<mapsto> APy (VStr ''c''), ''name'' \<mapsto> APy (VStr ''o'')]
           sample_url (sample_worker 5)) False (sample_worker 5)"
  let ?v = "snd (snd (handle_delete_object ?h (sample_job ''delete_object'') (sample_worker 0)))"
  have ok: "HandleDeleteObject \<noteq> HandleJob \<and> HandleDeleteObject \<noteq> HandleNoop
      \<and> call_handler ?h (handle_job ?h 0) HandleDeleteObject
          (sample_job ''delete_object'') (sample_worker 0)
        = (Returns (), sample_job ''delete_object'', ?v)"
    by (simp add: call_handler_def sample_delete_healthy(1))
  have bad: "resolve_handler (sample_job ''delete_object'') = Inr (Some HandleDeleteObject)
    \<and> call_handler ?e (handle_job ?e 0) HandleDeleteObject
      (sample_job ''delete_object'') (sample_worker 5)
    = (Raises (ClientException 500), sample_job ''delete_object'', ?w')
    \<and> is_Exception (ClientException 500)
    \<and> msgpack_dumps ?e
         (result_record ?e (sample_job ''delete_object'')
            [''exception'' \<mapsto> VStr (py_repr ?e (ClientException 500)),
             ''traceback'' \<mapsto> VStr (format_exc ?e (ClientException 500))] ?w') = None"
    by (simp add: call_handler_def sample_delete_raises sample_found is_Exception_def
        sample_env_fields sample_encodes)
  have cl: "client ?h = healthy"
    by (simp add: sample_env_def)
  note t1 = result_enrichment [where e = ?h
      and object_info = "sample_job ''get_object''"
      and resp_headers = "[(''x-trans-id'', VStr ''tx1'')]" and w = "sample_worker 0"
      and h = HandleDeleteObject and self_handle_job = "handle_job ?h 0"
      and job_data = "sample_job ''delete_object''" and u = "()"
      and job_data' = "sample_job ''delete_object''" and w' = ?v]
  note t2 = result_enrichment [where e = ?e
      and w = "sample_worker 5" and h = HandleDeleteObject and depth = 0
      and job_data = "sample_job ''delete_object''" and x = "ClientException 500"
      and job_data' = "sample_job ''delete_object''" and w' = ?w']
  have a: "result_queue (snd (put_results_from_response ?h (sample_job ''get_object'')
       [(''x-trans-id'', VStr ''tx1'')] (sample_worker 0)))
     = [result_record ?h (sample_job ''get_object'')
          [''first_byte_latency'' \<mapsto> VNone, ''last_byte_latency'' \<mapsto> VNone,
           ''trans_id'' \<mapsto> VStr ''tx1''] (sample_worker 0)]"
    using t1 [THEN conjunct1]
    by (simp add: Let_def sample_env_fields sample_encodes header_get_def sample_worker_fields)
  have b: "\<exists>hd w1 cs c.
        put_results_from_response ?h (sample_job ''delete_object'') hd w1 = (Returns (), ?v)
        \<and> result_queue w1 = [] \<and> calls w1 = cs @ [c]
        \<and> (healthy cs c = CReturn (RHeaders hd) \<or> (\<exists>b. healthy cs c = CReturn (RPair hd b)))"
    using t1 [THEN conjunct2, THEN conjunct1, THEN mp, OF ok]
    unfolding cl sample_worker_fields .
  have none: "sample_job ''delete_object'' ''first_byte_latency'' = None"
    by (simp add: sample_job_def)
  have c: "map (\<lambda>r. (r ''first_byte_latency'', r ''exception''))
        (result_queue (snd (snd (handle_job ?e (Suc 0) (sample_job ''delete_object'')
           (sample_worker 5)))))
      = [(None, Some (VStr ''ClientException''))]"
    using t2 [THEN conjunct2, THEN conjunct2, THEN conjunct2, THEN mp, OF bad] none
    by (simp add: Let_def sample_worker_fields sample_env_fields sample_repr_def
        del: handle_job.simps)
  show ?thesis using a b c by blast
qed

section \<open>Pools: creation and use\<close>

lemma fill_pool_result:
  "fill_pool k p n =
     (p\<lparr>queue := queue p @ map (\<lambda>i. HttpConn i (pool_url p)) [n ..< n + k]\<rparr>, n + k)"
proof (induction k arbitrary: p n)
  case 0
  then show ?case by simp
next
  case (Suc k)
  have "[n ..< n + Suc k] = n # [Suc n ..< Suc n + k]"
    by (simp add: upt_rec)
  then show ?case by (simp add: Suc)
qed

lemma ensure_pool_new:
  assumes "url \<notin> dom (conn_pools w)"
  shows "ensure_pool url w =
     w\<lparr>created := created w + concurrency w,
       conn_pools := (conn_pools w)
         (url \<mapsto> \<lparr>pool_url = url, maxsize = concurrency w,
                  queue = map (\<lambda>i. HttpConn i url) [created w ..< created w + concurrency w]\<rparr>)\<rparr>"
  using assms by (simp add: ensure_pool_def ConnectionPool_def fill_pool_result)

text \<open>
  Claim C8.  For a url that has no pool yet, the intake loop makes a pool of capacity
  \<^verbatim>\<open>concurrency\<close> and fills it with exactly that many connections, each newly created
  for that url (they are the next \<^verbatim>\<open>concurrency\<close> connections in order of creation), and
  only then dispatches the job.  For a url that has a pool, nothing is created and the
  worker is unchanged when the job is dispatched.  After either, the url has a pool.
\<close>

theorem ensure_pool_creates_once:
  "(storage_url \<notin> dom (conn_pools w) \<longrightarrow>
      conn_pools (ensure_pool storage_url w)
        = (conn_pools w)
            (storage_url \<mapsto>
               \<lparr>pool_url = storage_url, maxsize = concurrency w,
                queue = map (\<lambda>i. HttpConn i storage_url)
                          [created w ..< created w + concurrency w]\<rparr>)
      \<and> created (ensure_pool storage_url w) = created w + concurrency w
      \<and> pool_create storage_url (ensure_pool storage_url w)
          = (Returns (HttpConn (created w + concurrency w) storage_url),
             (ensure_pool storage_url w)\<lparr>created := Suc (created w + concurrency w)\<rparr>))
   \<and> (storage_url \<in> dom (conn_pools w) \<longrightarrow> ensure_pool storage_url w = w)
   \<and> storage_url \<in> dom (conn_pools (ensure_pool storage_url w))
   \<and> (job_data ''storage_url'' = Some storage_url \<and> job_data ''type'' \<noteq> None
        \<and> job_data ''container'' \<noteq> None \<and> job_data ''name'' \<noteq> None \<longrightarrow>
      go e (JobMessage job_data # ms) w
        = go e ms (snd (snd (handle_job e (recursion_limit e) job_data (ensure_pool storage_url w)))))"
proof (intro conjI impI)
  assume new: "storage_url \<notin> dom (conn_pools w)"
  show "conn_pools (ensure_pool storage_url w)
        = (conn_pools w)
            (storage_url \<mapsto>
               \<lparr>pool_url = storage_url, maxsize = concurrency w,
                queue = map (\<lambda>i. HttpConn i storage_url)
                          [created w ..< created w + concurrency w]\<rparr>)"
    by (simp add: ensure_pool_new [OF new])
  show "created (ensure_pool storage_url w) = created w + concurrency w"
    by (simp add: ensure_pool_new [OF new])
  show "pool_create storage_url (ensure_pool storage_url w)
          = (Returns (HttpConn (created w + concurrency w) storage_url),
             (ensure_pool storage_url w)\<lparr>created := Suc (created w + concurrency w)\<rparr>)"
    by (simp add: ensure_pool_new [OF new] pool_create_def)
next
  assume "storage_url \<in> dom (conn_pools w)"
  then show "ensure_pool storage_url w = w"
    by (simp add: ensure_pool_def)
next
  show "storage_url \<in> dom (conn_pools (ensure_pool storage_url w))"
    by (cases "storage_url \<in> dom (conn_pools w)")
       (simp_all add: ensure_pool_new, simp add: ensure_pool_def)
next
  assume "job_data ''storage_url'' = Some storage_url \<and> job_data ''type'' \<noteq> None
        \<and> job_data ''container'' \<noteq> None \<and> job_data ''name'' \<noteq> None"
  then show "go e (JobMessage job_data # ms) w
        = go e ms (snd (snd (handle_job e (recursion_limit e) job_data (ensure_pool storage_url w))))"
    by (intro go_step) simp_all
qed

theorem ensure_pool_creates_once_witness:
  "map_option (\<lambda>p. (maxsize p, map conn_id (queue p)))
     (conn_pools (ensure_pool (VStr ''http://t'') (sample_worker 0)) (VStr ''http://t''))
     = Some (2, [2, 3])
   \<and> created (ensure_pool (VStr ''http://t'') (sample_worker 0)) = 4
   \<and> ensure_pool sample_url (sample_worker 0) = sample_worker 0"
  using ensure_pool_creates_once [of "VStr ''http://t''" "sample_worker 0"]
    ensure_pool_creates_once [of sample_url "sample_worker 0"]
  by (simp add: sample_worker_def sample_url_def upt_rec)

section \<open>Pools stay full\<close>

lemma finally_put_full:
  assumes "finally_put url hc r w = (r', w')"
    and "case conn_pools w url of None \<Rightarrow> True | Some p \<Rightarrow> Suc (length (queue p)) = maxsize p"
    and "u \<noteq> url \<longrightarrow> pool_full u w"
  shows "pool_full u w'"
  using assms
  by (auto simp: finally_put_def pool_put_def pool_full_def
      split: option.splits if_splits prod.splits outcome.splits)

lemma connection_full:
  assumes "connection url (call_fn e fn args) w = (r, w')" and "pool_full u w"
  shows "pool_full u w'"
proof (cases "conn_pools w url")
  case None
  then show ?thesis using assms by (simp add: connection_def pool_get_def)
next
  case (Some p)
  show ?thesis
  proof (cases "queue p")
    case Nil
    then show ?thesis using assms Some by (simp add: connection_def pool_get_def)
  next
    case (Cons hc rest)
    let ?w1 = "w\<lparr>conn_pools := (conn_pools w)(url \<mapsto> p\<lparr>queue := rest\<rparr>)\<rparr>"
    have get: "pool_get url w = (Returns hc, ?w1)"
      using Some Cons by (simp add: pool_get_def)
    have other: "u \<noteq> url \<longrightarrow> pool_full u ?w1"
      using assms(2) by (simp add: pool_full_def)
    show ?thesis
    proof (cases "u = url")
      case False
      then show ?thesis
        using assms Some Cons
        by (auto simp: connection_def pool_get_def call_fn_def pool_create_def Let_def
            finally_put_def pool_put_def pool_full_def
            split: client_outcome.splits if_splits option.splits)
    next
      case True
      then have full: "Suc (length rest) = maxsize p"
        using assms(2) Some Cons by (simp add: pool_full_def)
      then show ?thesis
        using assms Some Cons True
        by (auto simp: connection_def pool_get_def call_fn_def pool_create_def Let_def
            finally_put_def pool_put_def pool_full_def
            split: client_outcome.splits if_splits option.splits)
    qed
  qed
qed

lemma attempt_full:
  assumes "attempt e statuses fn url args tries w = (s, w')" and "pool_full u w"
  shows "pool_full u w'"
proof -
  obtain r where "connection url (call_fn e fn args) w = (r, w')"
    using assms(1)
    by (auto simp: attempt_def Let_def split: prod.splits outcome.splits if_splits exc.splits)
  then show ?thesis using assms(2) by (rule connection_full)
qed

lemma retry_loop_full:
  "retry_loop e statuses fn url args tries w = (r, w') \<Longrightarrow> pool_full u w \<Longrightarrow> pool_full u w'"
proof (induction e statuses fn url args tries w rule: retry_loop.induct)
  case (1 e statuses fn url args tries w)
  obtain s w1 where att: "attempt e statuses fn url args tries w = (s, w1)"
    by (cases "attempt e statuses fn url args tries w")
  note full = attempt_full [OF att "1.prems"(2)]
  show ?case
  proof (cases s)
    case (Continue t)
    have "retry_loop e statuses fn url args t w1 = (r, w')"
      using "1.prems" att Continue by (simp add: retry_loop_unfold [of e statuses fn url args tries w])
    from "1.IH" [OF att [symmetric] Continue this full] show ?thesis .
  qed (use "1.prems" att full in \<open>auto simp: retry_loop_unfold [of e statuses fn url args tries w]\<close>)
qed

lemma ignoring_http_responses_full:
  "ignoring_http_responses e statuses fn call_info extra_keys w = (r, w') \<Longrightarrow> pool_full u w
   \<Longrightarrow> pool_full u w'"
  by (auto simp: ignoring_http_responses_def split: option.splits dest: retry_loop_full)

lemma put_results_full:
  "put_results e args kw w = (r, w') \<Longrightarrow> pool_full u w \<Longrightarrow> pool_full u w'"
  by (auto simp: pool_full_def dest: put_results_frame)

lemma put_results_from_response_full:
  "put_results_from_response e object_info h w = (r, w') \<Longrightarrow> pool_full u w \<Longrightarrow> pool_full u w'"
  by (auto simp: put_results_from_response_def dest: put_results_full)

lemma try_handler_full:
  "try_handler e (r0, jd0, w0) = (r, job_data', w') \<Longrightarrow> pool_full u w0 \<Longrightarrow> pool_full u w'"
  by (cases r0)
     (auto simp: try_handler_def split: if_splits prod.splits dest: put_results_full)

lemma call_handler_full:
  assumes "call_handler e self_handle_job h job_data w = (r, job_data', w')" and "pool_full u w"
    and self: "\<And>jd v r' jd' v'. self_handle_job jd v = (r', jd', v') \<Longrightarrow> pool_full u v \<Longrightarrow> pool_full u v'"
  shows "pool_full u w'"
proof (cases h)
  case HandleJob
  then show ?thesis using assms by (auto simp: call_handler_def)
next
  case HandleNoop
  then show ?thesis using assms(1,2)
    by (auto simp: call_handler_def handle_noop_def split: prod.splits dest: put_results_full)
next
  case HandleUploadObject
  then show ?thesis using assms(1,2)
    by (auto simp: call_handler_def handle_upload_object_def Let_def
        split: option.splits sum.splits prod.splits outcome.splits fn_result.splits
        dest: ignoring_http_responses_full put_results_from_response_full)
next
  case HandleUpdateObject
  then show ?thesis using assms(1,2)
    by (auto simp: call_handler_def handle_update_object_def handle_upload_object_def Let_def
        split: option.splits sum.splits prod.splits outcome.splits fn_result.splits
        dest: ignoring_http_responses_full put_results_from_response_full)
next
  case HandleDeleteObject
  then show ?thesis using assms(1,2)
    by (auto simp: call_handler_def handle_delete_object_def
        split: prod.splits outcome.splits fn_result.splits
        dest: ignoring_http_responses_full put_results_from_response_full)
next
  case HandleGetObject
  then show ?thesis using assms(1,2)
    by (auto simp: call_handler_def handle_get_object_def
        split: prod.splits outcome.splits fn_result.splits if_splits
        dest: ignoring_http_responses_full put_results_from_response_full)
qed

lemma handle_job_full:
  "handle_job e depth job_data w = (r, job_data', w') \<Longrightarrow> pool_full u w \<Longrightarrow> pool_full u w'"
proof (induction depth arbitrary: job_data w r job_data' w')
  case 0
  then show ?case by simp
next
  case (Suc depth)
  show ?case
  proof (cases "resolve_handler job_data")
    case (Inl x)
    then show ?thesis using Suc.prems by simp
  next
    case (Inr ho)
    show ?thesis
    proof (cases ho)
      case None
      then show ?thesis using Suc.prems Inr by (auto split: option.splits)
    next
      case (Some h)
      obtain r1 jd1 w1 where ch: "call_handler e (handle_job e depth) h job_data w = (r1, jd1, w1)"
        by (cases "call_handler e (handle_job e depth) h job_data w")
      have "pool_full u w1"
        using call_handler_full [OF ch Suc.prems(2)] Suc.IH by blast
      moreover have "try_handler e (r1, jd1, w1) = (r, job_data', w')"
        using Suc.prems(1) Inr Some ch by simp
      ultimately show ?thesis
        by (rule try_handler_full [rotated])
    qed
  qed
qed

lemma ensure_pool_full: "pool_full u w \<Longrightarrow> pool_full u (ensure_pool url w)"
  by (cases "url \<in> dom (conn_pools w)")
     (simp_all add: ensure_pool_new pool_full_def, simp add: ensure_pool_def)

lemma go_full: "pool_full u w \<Longrightarrow> pool_full u (snd (go e ms w))"
proof (induction ms arbitrary: w)
  case Nil
  then show ?case by simp
next
  case (Cons m ms)
  show ?case
  proof (cases m)
    case EndOfStream
    then show ?thesis using Cons.prems by simp
  next
    case (JobMessage job_data)
    show ?thesis
    proof (cases "job_data ''storage_url'' = None \<or> job_data ''type'' = None
        \<or> job_data ''container'' = None \<or> job_data ''name'' = None")
      case True
      then show ?thesis using Cons.prems JobMessage by (auto simp del: handle_job.simps)
    next
      case False
      then obtain url where url: "job_data ''storage_url'' = Some url" by auto
      obtain r jd w' where hj:
        "handle_job e (recursion_limit e) job_data (ensure_pool url w) = (r, jd, w')"
        by (cases "handle_job e (recursion_limit e) job_data (ensure_pool url w)")
      have "pool_full u w'"
        using handle_job_full [OF hj ensure_pool_full [OF Cons.prems]] .
      then have "pool_full u (snd (go e ms w'))" by (rule Cons.IH)
      moreover have "go e (m # ms) w = go e ms w'"
        using go_step [where job_data = job_data and url = url and e = e and ms = ms and w = w]
          url False hj JobMessage
        by (simp del: handle_job.simps go.simps)
      ultimately show ?thesis by simp
    qed
  qed
qed

section \<open>Runs that differ in the fill letter\<close>

lemma finally_put_erase:
  "finally_put url hc r (erase_calls w)
     = (fst (finally_put url hc r w), erase_calls (snd (finally_put url hc r w)))"
  by (simp add: finally_put_def pool_put_def erase_calls_def split: option.splits)

lemma connection_erase:
  assumes "letter_blind e"
  shows "connection url (call_fn e fn (erase_args a)) (erase_calls w)
     = (fst (connection url (call_fn e fn a) w), erase_calls (snd (connection url (call_fn e fn a) w)))"
proof (cases "conn_pools w url")
  case None
  then show ?thesis by (simp add: connection_def pool_get_def erase_calls_def)
next
  case (Some p)
  show ?thesis
  proof (cases "queue p")
    case Nil
    then show ?thesis using Some by (simp add: connection_def pool_get_def erase_calls_def)
  next
    case (Cons hc rest)
    let ?c = "\<lparr>call_op = fn, call_conn = hc, call_kwargs = a\<rparr>"
    have cl: "client e (map erase_letter (calls w))
        \<lparr>call_op = fn, call_conn = hc, call_kwargs = erase_args a\<rparr> = client e (calls w) ?c"
      using assms [unfolded letter_blind_def, rule_format, of "calls w" ?c]
      by (simp add: erase_letter_def)
    have er: "\<And>v cs. v\<lparr>calls := map erase_letter cs @ [\<lparr>call_op = fn, call_conn = hc, call_kwargs = erase_args a\<rparr>]\<rparr>
        = erase_calls (v\<lparr>calls := cs @ [?c]\<rparr>)"
      by (simp add: erase_calls_def erase_letter_def)
    show ?thesis
    proof (cases "client e (calls w) ?c")
      case (CReturn r)
      then show ?thesis
        using Some Cons cl
        by (simp add: connection_def pool_get_def call_fn_def Let_def erase_calls_def
            finally_put_def pool_put_def erase_letter_def)
    next
      case (CRaise x)
      then show ?thesis
        using Some Cons cl
        by (simp add: connection_def pool_get_def call_fn_def Let_def erase_calls_def
            finally_put_def pool_put_def pool_create_def erase_letter_def)
    qed
  qed
qed

lemma attempt_erase:
  assumes "letter_blind e"
  shows "attempt e statuses fn url (erase_args a) tries (erase_calls w)
     = (fst (attempt e statuses fn url a tries w), erase_calls (snd (attempt e statuses fn url a tries w)))"
proof -
  obtain r w1 where c: "connection url (call_fn e fn a) w = (r, w1)"
    by (cases "connection url (call_fn e fn a) w")
  have mr: "max_retries (erase_calls w1) = max_retries w1"
    by (simp add: erase_calls_def)
  show ?thesis
    unfolding attempt_def connection_erase [OF assms] c
    by (simp add: mr Let_def split: outcome.splits exc.splits option.splits)
qed

lemma retry_loop_erase:
  "letter_blind e \<Longrightarrow>
   retry_loop e statuses fn url (erase_args a) tries (erase_calls w)
     = (fst (retry_loop e statuses fn url a tries w),
        erase_calls (snd (retry_loop e statuses fn url a tries w)))"
proof (induction e statuses fn url a tries w rule: retry_loop.induct)
  case (1 e statuses fn url a tries w)
  obtain s w1 where att: "attempt e statuses fn url a tries w = (s, w1)"
    by (cases "attempt e statuses fn url a tries w")
  have att': "attempt e statuses fn url (erase_args a) tries (erase_calls w) = (s, erase_calls w1)"
    using attempt_erase [OF "1.prems", of statuses fn url a tries w] att by simp
  show ?case
  proof (cases s)
    case (Continue t)
    from "1.IH" [OF att [symmetric] Continue "1.prems"] show ?thesis
      using att att' Continue
      by (simp add: retry_loop_unfold [of e statuses fn url a tries w]
          retry_loop_unfold [of e statuses fn url "erase_args a" tries "erase_calls w"])
  qed (use att att' in \<open>simp_all add: retry_loop_unfold [of e statuses fn url a tries w]
          retry_loop_unfold [of e statuses fn url "erase_args a" tries "erase_calls w"]\<close>)
qed

lemma erase_args_add: "erase_args (m ++ x) = erase_args m ++ erase_args x"
  by (rule ext) (simp add: erase_args_def map_add_def split: option.splits argval.splits)

lemma erase_args_base:
  "erase_args [''url'' \<mapsto> APy a, ''token'' \<mapsto> APy b, ''container'' \<mapsto> APy c, ''name'' \<mapsto> APy d]
     = [''url'' \<mapsto> APy a, ''token'' \<mapsto> APy b, ''container'' \<mapsto> APy c, ''name'' \<mapsto> APy d]"
  by (rule ext) (simp add: erase_args_def)

lemma ignoring_http_responses_erase:
  assumes "letter_blind e"
  shows "ignoring_http_responses e statuses fn call_info (erase_args extra_keys) (erase_calls w)
     = (fst (ignoring_http_responses e statuses fn call_info extra_keys w),
        erase_calls (snd (ignoring_http_responses e statuses fn call_info extra_keys w)))"
proof (cases "call_info ''storage_url'' = None \<or> call_info ''token'' = None
    \<or> call_info ''container'' = None \<or> call_info ''name'' = None")
  case True
  then show ?thesis
    by (auto simp: ignoring_http_responses_def erase_calls_def split: option.splits)
next
  case False
  then obtain url tok cont nm where keys: "call_info ''storage_url'' = Some url"
    "call_info ''token'' = Some tok" "call_info ''container'' = Some cont"
    "call_info ''name'' = Some nm"
    by auto
  let ?base = "[''url'' \<mapsto> APy url, ''token'' \<mapsto> APy tok, ''container'' \<mapsto> APy cont,
      ''name'' \<mapsto> APy nm]"
  have args: "?base ++ erase_args extra_keys = erase_args (?base ++ extra_keys)"
    by (simp only: erase_args_add erase_args_base)
  show ?thesis
    using keys
    by (simp only: ignoring_http_responses_def option.case args retry_loop_erase [OF assms])
qed

lemma put_results_from_response_erase:
  "put_results_from_response e object_info h (erase_calls w)
     = (fst (put_results_from_response e object_info h w),
        erase_calls (snd (put_results_from_response e object_info h w)))"
  by (simp add: put_results_from_response_def put_results_def erase_calls_def Let_def
      split: option.splits)

lemma erase_args_contents:
  "erase_args [''content_length'' \<mapsto> APy v, ''contents'' \<mapsto> AReader (ChunkedReader l n)]
     = erase_args [''content_length'' \<mapsto> APy v, ''contents'' \<mapsto> AReader (ChunkedReader l' n)]"
  by (rule ext) (simp add: erase_args_def ChunkedReader_def)

lemma ignoring_put_letters:
  assumes "letter_blind e"
  shows "fst (ignoring_http_responses e statuses PutObject call_info
            [''content_length'' \<mapsto> APy v, ''contents'' \<mapsto> AReader (ChunkedReader l n)] w)
       = fst (ignoring_http_responses e statuses PutObject call_info
            [''content_length'' \<mapsto> APy v, ''contents'' \<mapsto> AReader (ChunkedReader l' n)] w)
     \<and> erase_calls (snd (ignoring_http_responses e statuses PutObject call_info
            [''content_length'' \<mapsto> APy v, ''contents'' \<mapsto> AReader (ChunkedReader l n)] w))
       = erase_calls (snd (ignoring_http_responses e statuses PutObject call_info
            [''content_length'' \<mapsto> APy v, ''contents'' \<mapsto> AReader (ChunkedReader l' n)] w))"
  using ignoring_http_responses_erase [OF assms, of statuses PutObject call_info
      "[''content_length'' \<mapsto> APy v, ''contents'' \<mapsto> AReader (ChunkedReader l n)]" w]
    ignoring_http_responses_erase [OF assms, of statuses PutObject call_info
      "[''content_length'' \<mapsto> APy v, ''contents'' \<mapsto> AReader (ChunkedReader l' n)]" w]
  unfolding erase_args_contents [of v l n l']
  by simp

lemma handle_upload_object_letters:
  assumes "letter_blind e"
  shows "fst (handle_upload_object e object_info la w) = fst (handle_upload_object e object_info lb w)
     \<and> fst (snd (handle_upload_object e object_info la w))
       = fst (snd (handle_upload_object e object_info lb w))
     \<and> erase_calls (snd (snd (handle_upload_object e object_info la w)))
       = erase_calls (snd (snd (handle_upload_object e object_info lb w)))"
proof (cases "object_info ''size''")
  case None
  then show ?thesis by (simp add: handle_upload_object_def)
next
  case (Some v)
  show ?thesis
  proof (cases "py_int e v")
    case (Inl x)
    then show ?thesis using Some by (simp add: handle_upload_object_def)
  next
    case (Inr n)
    let ?l = "case la of None \<Rightarrow> ''A'' | Some l \<Rightarrow> l"
    let ?l' = "case lb of None \<Rightarrow> ''A'' | Some l \<Rightarrow> l"
    let ?oi = "object_info(''size'' \<mapsto> VInt n)"
    obtain r1 w1 where a: "ignoring_http_responses e [503] PutObject ?oi
        [''content_length'' \<mapsto> APy (VInt n), ''contents'' \<mapsto> AReader (ChunkedReader ?l n)] w = (r1, w1)"
      by (cases "ignoring_http_responses e [503] PutObject ?oi
        [''content_length'' \<mapsto> APy (VInt n), ''contents'' \<mapsto> AReader (ChunkedReader ?l n)] w")
    obtain r2 w2 where b: "ignoring_http_responses e [503] PutObject ?oi
        [''content_length'' \<mapsto> APy (VInt n), ''contents'' \<mapsto> AReader (ChunkedReader ?l' n)] w = (r2, w2)"
      by (cases "ignoring_http_responses e [503] PutObject ?oi
        [''content_length'' \<mapsto> APy (VInt n), ''contents'' \<mapsto> AReader (ChunkedReader ?l' n)] w")
    have same: "r1 = r2" "erase_calls w1 = erase_calls w2"
      using ignoring_put_letters [OF assms, of "[503]" ?oi "VInt n" ?l n w ?l'] a b by simp_all
    have put: "fst (put_results_from_response e ?oi h w1)
          = fst (put_results_from_response e ?oi h w2)
        \<and> erase_calls (snd (put_results_from_response e ?oi h w1))
          = erase_calls (snd (put_results_from_response e ?oi h w2))" for h
      using put_results_from_response_erase [of e ?oi h w1]
        put_results_from_response_erase [of e ?oi h w2] same
      by simp
    show ?thesis
      using Some Inr a b same put
      by (simp add: handle_upload_object_def Let_def case_prod_beta
          split: outcome.splits fn_result.splits)
  qed
qed

text \<open>
  Claim C9.  \<^verbatim>\<open>handle_update_object(job)\<close> is \<^verbatim>\<open>handle_upload_object(job, letter='B')\<close>, and
  \<^verbatim>\<open>handle_upload_object(job)\<close> is \<^verbatim>\<open>handle_upload_object(job, letter='A')\<close>.  For any
  letter the upload is the same storage call (a put with the job's size as content length),
  with the same retryable statuses (503 only) and the same record on success; the letter
  occurs only in the payload reader.  So against a storage client whose answers do not
  depend on the letter, an update and an upload of the same job end in the same way, leave
  the same job dict and the same worker state, records included, and make the same calls
  but for the letter.
\<close>

theorem update_is_upload_with_B:
  "handle_update_object e object_info w = handle_upload_object e object_info (Some ''B'') w
   \<and> handle_upload_object e object_info None w = handle_upload_object e object_info (Some ''A'') w
   \<and> handle_upload_object e object_info (Some l) w =
       (case object_info ''size'' of
          None \<Rightarrow> (Raises (KeyError (VStr ''size'')), object_info, w)
        | Some v \<Rightarrow>
            (case py_int e v of
               Inl x \<Rightarrow> (Raises x, object_info, w)
             | Inr n \<Rightarrow>
                 (case ignoring_http_responses e [503] PutObject (object_info(''size'' \<mapsto> VInt n))
                         [''content_length'' \<mapsto> APy (VInt n),
                          ''contents'' \<mapsto> AReader (ChunkedReader l n)] w of
                    (Returns (RHeaders h), w') \<Rightarrow>
                      (case put_results_from_response e (object_info(''size'' \<mapsto> VInt n)) h w' of
                         (r, w'') \<Rightarrow> (r, object_info(''size'' \<mapsto> VInt n), w''))
                  | (Returns r, w') \<Rightarrow>
                      (Raises (AttributeError ''get''), object_info(''size'' \<mapsto> VInt n), w')
                  | (Raises x, w') \<Rightarrow> (Raises x, object_info(''size'' \<mapsto> VInt n), w')
                  | (Blocked, w') \<Rightarrow> (Blocked, object_info(''size'' \<mapsto> VInt n), w'))))
   \<and> (letter_blind e \<longrightarrow>
        fst (handle_update_object e object_info w) = fst (handle_upload_object e object_info None w)
        \<and> fst (snd (handle_update_object e object_info w))
            = fst (snd (handle_upload_object e object_info None w))
        \<and> erase_calls (snd (snd (handle_update_object e object_info w)))
            = erase_calls (snd (snd (handle_upload_object e object_info None w))))"
proof (intro conjI impI)
  assume blind: "letter_blind e"
  note eq = handle_upload_object_letters [OF blind, of object_info "Some ''B''" w None]
  show "fst (handle_update_object e object_info w) = fst (handle_upload_object e object_info None w)"
    using eq by (simp add: handle_update_object_def)
  show "fst (snd (handle_update_object e object_info w))
            = fst (snd (handle_upload_object e object_info None w))"
    using eq by (simp add: handle_update_object_def)
  show "erase_calls (snd (snd (handle_update_object e object_info w)))
            = erase_calls (snd (snd (handle_upload_object e object_info None w)))"
    using eq by (simp add: handle_update_object_def)
qed (simp_all add: handle_update_object_def handle_upload_object_def Let_def
      split: option.splits sum.splits)

theorem update_is_upload_with_B_witness:
  "result_queue (snd (snd (handle_update_object (sample_env healthy) (sample_job ''update_object'')
       (sample_worker 0))))
     = result_queue (snd (snd (handle_upload_object (sample_env healthy)
         (sample_job ''update_object'') None (sample_worker 0))))
   \<and> fst (handle_update_object (sample_env healthy) (sample_job ''update_object'') (sample_worker 0))
     = fst (handle_upload_object (sample_env healthy) (sample_job ''update_object'') None
         (sample_worker 0))"
proof -
  have blind: "letter_blind (sample_env healthy)"
    by (simp add: letter_blind_def sample_env_def healthy_def)
  note t = update_is_upload_with_B [of "sample_env healthy" "sample_job ''update_object''"
      "sample_worker 0" "''B''", THEN conjunct2, THEN conjunct2, THEN conjunct2, THEN mp, OF blind]
  have "result_queue (erase_calls (snd (snd (handle_update_object (sample_env healthy)
        (sample_job ''update_object'') (sample_worker 0)))))
      = result_queue (erase_calls (snd (snd (handle_upload_object (sample_env healthy)
        (sample_job ''update_object'') None (sample_worker 0)))))"
    using t by simp
  then show ?thesis
    using t by (simp add: erase_calls_def)
qed

section \<open>The connection context: one connection back\<close>

text \<open>
  Claim C4.  A use of the connection context on a pool that can lend a connection returns
  exactly one connection to that pool however the body ends: the borrowed one after a
  normal end or an exception, and after a cannot-send or connection-closed exception a
  newly created one, the borrowed one having been closed.  The pool then holds as many
  connections as before the use, which is no more than its capacity.  (The body is any
  code that leaves the pools alone and ends.)  Hence a pool that is full stays full over
  any run of the intake loop, whatever the storage client does.
\<close>

theorem connection_returns_one:
  assumes pool: "conn_pools w url = Some p" "queue p = hc # rest" "length (queue p) \<le> maxsize p"
    and body: "body hc (w\<lparr>conn_pools := (conn_pools w)(url \<mapsto> p\<lparr>queue := rest\<rparr>)\<rparr>) = (r, w2)"
    and kept: "conn_pools w2 = (conn_pools w)(url \<mapsto> p\<lparr>queue := rest\<rparr>)"
    and ends: "r \<noteq> Blocked"
  shows "fst (connection url body w)
           = (case r of
                Returns v \<Rightarrow> Returns (Some v)
              | Raises x \<Rightarrow>
                  if x = CannotSendRequest \<or> x = HTTPConnectionClosed then Returns None
                  else Raises x
              | Blocked \<Rightarrow> Blocked)
       \<and> conn_pools (snd (connection url body w))
           = (conn_pools w)
               (url \<mapsto> p\<lparr>queue := rest @
                  [if r = Raises CannotSendRequest \<or> r = Raises HTTPConnectionClosed
                   then HttpConn (created w2) (pool_url p) else hc]\<rparr>)
       \<and> closed_conns (snd (connection url body w))
           = (if r = Raises CannotSendRequest \<or> r = Raises HTTPConnectionClosed
              then closed_conns w2 @ [hc] else closed_conns w2)
       \<and> created (snd (connection url body w))
           = (if r = Raises CannotSendRequest \<or> r = Raises HTTPConnectionClosed
              then Suc (created w2) else created w2)
       \<and> (\<exists>p'. conn_pools (snd (connection url body w)) url = Some p'
              \<and> length (queue p') = length (queue p) \<and> maxsize p' = maxsize p
              \<and> length (queue p') \<le> maxsize p')
       \<and> (\<forall>u e ms v. pool_full u v \<longrightarrow> pool_full u (snd (go e ms v)))"
  using pool ends go_full
  by (auto simp add: connection_outcome [where body = body, OF pool body kept ends]
      simp del: go.simps split: outcome.splits)

theorem connection_returns_one_witness:
  "fst (connection sample_url (\<lambda>hc w. (Raises CannotSendRequest :: unit outcome, w)) (sample_worker 0))
     = Returns None
   \<and> map_option (\<lambda>p. map conn_id (queue p))
       (conn_pools (snd (connection sample_url (\<lambda>hc w. (Raises CannotSendRequest :: unit outcome, w))
          (sample_worker 0))) sample_url) = Some [1, 2]
   \<and> map conn_id (closed_conns (snd (connection sample_url
          (\<lambda>hc w. (Raises CannotSendRequest :: unit outcome, w)) (sample_worker 0)))) = [0]
   \<and> fst (connection sample_url (\<lambda>hc w. (Raises (OtherError ''boom'') :: unit outcome, w))
          (sample_worker 0)) = Raises (OtherError ''boom'')
   \<and> map_option (\<lambda>p. map conn_id (queue p))
       (conn_pools (snd (connection sample_url (\<lambda>hc w. (Raises (OtherError ''boom'') :: unit outcome, w))
          (sample_worker 0))) sample_url) = Some [1, 0]
   \<and> map_option (\<lambda>p. map conn_id (queue p))
       (conn_pools (snd (connection sample_url (\<lambda>hc w. (Returns (), w))
          (sample_worker 0))) sample_url) = Some [1, 0]
   \<and> pool_full sample_url
       (snd (go (sample_env breaks_once)
          [JobMessage (sample_job ''delete_object''), JobMessage (sample_job ''get_object'')]
          (sample_worker 0)))"
  using connection_returns_one [where w = "sample_worker 0" and url = sample_url
      and p = "\<lparr>pool_url = sample_url, maxsize = 2,
                 queue = [HttpConn 0 sample_url, HttpConn 1 sample_url]\<rparr>"
      and hc = "HttpConn 0 sample_url" and rest = "[HttpConn 1 sample_url]"
      and body = "\<lambda>hc w. (Raises CannotSendRequest :: unit outcome, w)"
      and r = "Raises CannotSendRequest"
      and ?w2.0 = "(sample_worker 0)\<lparr>conn_pools := (conn_pools (sample_worker 0))
          (sample_url \<mapsto> \<lparr>pool_url = sample_url, maxsize = 2, queue = [HttpConn 1 sample_url]\<rparr>)\<rparr>"]
    connection_returns_one [where w = "sample_worker 0" and url = sample_url
      and p = "\<lparr>pool_url = sample_url, maxsize = 2,
                 queue = [HttpConn 0 sample_url, HttpConn 1 sample_url]\<rparr>"
      and hc = "HttpConn 0 sample_url" and rest = "[HttpConn 1 sample_url]"
      and body = "\<lambda>hc w. (Raises (OtherError ''boom'') :: unit outcome, w)"
      and r = "Raises (OtherError ''boom'')"
      and ?w2.0 = "(sample_worker 0)\<lparr>conn_pools := (conn_pools (sample_worker 0))
          (sample_url \<mapsto> \<lparr>pool_url = sample_url, maxsize = 2, queue = [HttpConn 1 sample_url]\<rparr>)\<rparr>"]
    connection_returns_one [where w = "sample_worker 0" and url = sample_url
      and p = "\<lparr>pool_url = sample_url, maxsize = 2,
                 queue = [HttpConn 0 sample_url, HttpConn 1 sample_url]\<rparr>"
      and hc = "HttpConn 0 sample_url" and rest = "[HttpConn 1 sample_url]"
      and body = "\<lambda>hc w. (Returns (), w)"
      and r = "Returns ()"
      and ?w2.0 = "(sample_worker 0)\<lparr>conn_pools := (conn_pools (sample_worker 0))
          (sample_url \<mapsto> \<lparr>pool_url = sample_url, maxsize = 2, queue = [HttpConn 1 sample_url]\<rparr>)\<rparr>"]
  by (simp add: sample_worker_def pool_full_def del: go.simps)

end
